theory Spec2Isabelle
  imports Complex_Main "HOL-Library.Word" "HOL-Library.AList" "HOL-Library.Sublist"
begin

unbundle bit_operations_syntax

section \<open>JavaScript values used by the launcher's main process\<close>

text \<open>
  The main process (\<^verbatim>\<open>src/main.js\<close>) reads the Steam client's files with the
  \<^verbatim>\<open>vdf\<close> package, whose \<^verbatim>\<open>parse\<close> returns plain objects: every value is a
  string or a nested object. An object is modelled by the list of its own enumerable
  properties in \<^verbatim>\<open>for ... in\<close> order; a property read looks at the first entry of a
  key. The package itself is not part of the repository: its result is an input here.
\<close>

datatype vdf = Str string | Obj "(string \<times> vdf) list"

text \<open>
  \<^verbatim>\<open>node.key\<close> for the fixed keys the program reads (none of them is \<^verbatim>\<open>length\<close>,
  an index or a member of a prototype): the own property of an object,
  \<^verbatim>\<open>undefined\<close> (\<open>None\<close>) on a string.
\<close>

fun vget :: "vdf \<Rightarrow> string \<Rightarrow> vdf option" where
  "vget (Obj kvs) k = map_of kvs k"
| "vget (Str s) k = None"

text \<open>Truthiness: \<^verbatim>\<open>undefined\<close> and the empty string are falsy, every object is truthy.\<close>

fun truthy :: "vdf option \<Rightarrow> bool" where
  "truthy None = False"
| "truthy (Some (Str s)) = (s \<noteq> [])"
| "truthy (Some (Obj kvs)) = True"

text \<open>\<^verbatim>\<open>a || b\<close>, and \<^verbatim>\<open>a || d\<close> with a default that is a value.\<close>

definition or_else :: "vdf option \<Rightarrow> vdf option \<Rightarrow> vdf option" where
  "or_else a b = (if truthy a then a else b)"

fun or_default :: "vdf option \<Rightarrow> vdf \<Rightarrow> vdf" where
  "or_default None d = d"
| "or_default (Some (Str s)) d = (if s = [] then d else Str s)"
| "or_default (Some (Obj kvs)) d = Obj kvs"

text \<open>A value when it is truthy: the guards \<^verbatim>\<open>if (!x) ...\<close> of the source.\<close>

definition truthy_val :: "vdf option \<Rightarrow> vdf option" where
  "truthy_val v = (if truthy v then v else None)"

text \<open>String conversion, as \<^verbatim>\<open>parseInt\<close>, template literals and property keys apply it.\<close>

fun toString :: "vdf option \<Rightarrow> string" where
  "toString None = ''undefined''"
| "toString (Some (Str s)) = s"
| "toString (Some (Obj kvs)) = ''[object Object]''"

text \<open>
  \<^verbatim>\<open>for (const key in v)\<close> together with \<^verbatim>\<open>v[key]\<close>: the properties of an object; the
  indices of a string, each with its one-character string.
\<close>

fun dec :: "nat \<Rightarrow> string" where
  "dec n = (if n < 10 then [''0123456789'' ! n] else dec (n div 10) @ [''0123456789'' ! (n mod 10)])"

fun enumerate_props :: "vdf \<Rightarrow> (string \<times> vdf) list" where
  "enumerate_props (Obj kvs) = kvs"
| "enumerate_props (Str s) = map (\<lambda>i. (dec i, Str [s ! i])) [0..<length s]"

subsection \<open>Strings\<close>

text \<open>
  Strings are lists of characters with the codes 0 to 255. White space is what \<^verbatim>\<open>trim\<close>, \<^verbatim>\<open>parseInt\<close>
  and the conversion to a number skip: tab, line feed, vertical tab, form feed, carriage
  return, space and the no-break space.
\<close>

definition is_ws :: "char \<Rightarrow> bool" where
  "is_ws c = (c \<in> set [CHR 0x09, CHR 0x0A, CHR 0x0B, CHR 0x0C, CHR 0x0D, CHR 0x20, CHR 0xA0])"

definition is_digit :: "char \<Rightarrow> bool" where
  "is_digit c = (c \<in> set ''0123456789'')"

definition is_hex_digit :: "char \<Rightarrow> bool" where
  "is_hex_digit c = (c \<in> set ''0123456789abcdefABCDEF'')"

definition is_octal_digit :: "char \<Rightarrow> bool" where
  "is_octal_digit c = (c \<in> set ''01234567'')"

definition is_binary_digit :: "char \<Rightarrow> bool" where
  "is_binary_digit c = (c \<in> set ''01'')"

definition js_trim :: "string \<Rightarrow> string" where
  "js_trim s = rev (dropWhile is_ws (rev (dropWhile is_ws s)))"

text \<open>
  \<^verbatim>\<open>toLowerCase\<close> on the characters 0 to 255: the letters A to Z, and the capital
  letters 192 to 222 other than the multiplication sign 215, move up by 32.
\<close>

definition upper_chars :: string where
  "upper_chars =
     ''ABCDEFGHIJKLMNOPQRSTUVWXYZ'' @
     [CHR 0xC0, CHR 0xC1, CHR 0xC2, CHR 0xC3, CHR 0xC4, CHR 0xC5, CHR 0xC6, CHR 0xC7,
      CHR 0xC8, CHR 0xC9, CHR 0xCA, CHR 0xCB, CHR 0xCC, CHR 0xCD, CHR 0xCE, CHR 0xCF,
      CHR 0xD0, CHR 0xD1, CHR 0xD2, CHR 0xD3, CHR 0xD4, CHR 0xD5, CHR 0xD6, CHR 0xD8,
      CHR 0xD9, CHR 0xDA, CHR 0xDB, CHR 0xDC, CHR 0xDD, CHR 0xDE]"

definition lower_chars :: string where
  "lower_chars =
     ''abcdefghijklmnopqrstuvwxyz'' @
     [CHR 0xE0, CHR 0xE1, CHR 0xE2, CHR 0xE3, CHR 0xE4, CHR 0xE5, CHR 0xE6, CHR 0xE7,
      CHR 0xE8, CHR 0xE9, CHR 0xEA, CHR 0xEB, CHR 0xEC, CHR 0xED, CHR 0xEE, CHR 0xEF,
      CHR 0xF0, CHR 0xF1, CHR 0xF2, CHR 0xF3, CHR 0xF4, CHR 0xF5, CHR 0xF6, CHR 0xF8,
      CHR 0xF9, CHR 0xFA, CHR 0xFB, CHR 0xFC, CHR 0xFD, CHR 0xFE]"

definition lower_char :: "char \<Rightarrow> char" where
  "lower_char c = (case map_of (zip upper_chars lower_chars) c of Some l \<Rightarrow> l | None \<Rightarrow> c)"

definition toLowerCase :: "string \<Rightarrow> string" where
  "toLowerCase s = map lower_char s"

definition startsWith :: "string \<Rightarrow> string \<Rightarrow> bool" where
  "startsWith s p = (take (length p) s = p)"

definition endsWith :: "string \<Rightarrow> string \<Rightarrow> bool" where
  "endsWith s p = (length p \<le> length s \<and> drop (length s - length p) s = p)"

fun str_includes :: "string \<Rightarrow> string \<Rightarrow> bool" where
  "str_includes [] p = (p = [])"
| "str_includes (c # cs) p = (startsWith (c # cs) p \<or> str_includes cs p)"

subsection \<open>Numbers\<close>

text \<open>
  The numbers of the program are results of \<^verbatim>\<open>parseInt\<close> and of arithmetic on them:
  \<^verbatim>\<open>NaN\<close>, the two infinities, or a double whose value is a whole number. \<open>Num n\<close>
  is the double of value \<open>n\<close>; \<open>Num 0\<close> stands for both zeros, which the program
  cannot tell apart (\<^verbatim>\<open>-0 === 0\<close>, \<^verbatim>\<open>-0 & 4\<close> is 0).
\<close>

datatype jsnum = NaN | Num int | PInf | NInf

text \<open>
  The double nearest to a natural number (ties to the even significand), \<open>None\<close> when
  it is beyond the largest double: numbers below \<open>2 ^ 53\<close> are exact, a larger one
  keeps its 53 leading bits.
\<close>

fun bitlen :: "nat \<Rightarrow> nat" where
  "bitlen n = (if n = 0 then 0 else Suc (bitlen (n div 2)))"

definition round_double :: "nat \<Rightarrow> nat option" where
  "round_double n =
     (if n < 2 ^ 53 then Some n
      else
        (let e = bitlen n - 53;
             q = n div 2 ^ e;
             r = n mod 2 ^ e;
             h = 2 ^ (e - 1);
             q = (if r > h \<or> (r = h \<and> odd q) then q + 1 else q);
             v = q * 2 ^ e
         in if v \<ge> 2 ^ 1024 then None else Some v))"

definition to_double :: "bool \<Rightarrow> nat \<Rightarrow> jsnum" where
  "to_double neg n =
     (case round_double n of
        None \<Rightarrow> if neg then NInf else PInf
      | Some v \<Rightarrow> Num (if neg then - int v else int v))"

definition digit_val :: "char \<Rightarrow> nat" where
  "digit_val c = of_char c - 48"

definition digits_val :: "string \<Rightarrow> nat" where
  "digits_val ds = foldl (\<lambda>a c. 10 * a + digit_val c) 0 ds"

text \<open>
  \<^verbatim>\<open>parseInt(s, 10)\<close>: leading white space is skipped, one sign is read, then the
  longest run of decimal digits; no digit gives \<^verbatim>\<open>NaN\<close>, and what follows the digits
  is ignored. The result is the double nearest to the number the digits denote (as the
  engine of Node computes it), an infinity when that is out of range.
\<close>

definition parseInt :: "string \<Rightarrow> jsnum" where
  "parseInt s =
     (let t = dropWhile is_ws s;
          neg = (t \<noteq> [] \<and> hd t = CHR ''-'');
          u = (if t \<noteq> [] \<and> (hd t = CHR ''-'' \<or> hd t = CHR ''+'') then tl t else t);
          ds = takeWhile is_digit u
      in if ds = [] then NaN else to_double neg (digits_val ds))"

text \<open>
  \<^verbatim>\<open>x & 4\<close> converts its operand to a 32-bit integer first: \<^verbatim>\<open>NaN\<close> and the
  infinities to 0, a whole number to its residue modulo \<open>2 ^ 32\<close>.
\<close>

definition toInt32 :: "jsnum \<Rightarrow> 32 word" where
  "toInt32 x = (case x of Num n \<Rightarrow> word_of_int n | _ \<Rightarrow> 0)"

text \<open>\<^verbatim>\<open>Math.max\<close> of two numbers: \<^verbatim>\<open>NaN\<close> when either is.\<close>

fun js_max :: "jsnum \<Rightarrow> jsnum \<Rightarrow> jsnum" where
  "js_max NaN b = NaN"
| "js_max a NaN = NaN"
| "js_max PInf b = PInf"
| "js_max a PInf = PInf"
| "js_max NInf b = b"
| "js_max a NInf = a"
| "js_max (Num a) (Num b) = Num (max a b)"

text \<open>\<^verbatim>\<open>x > 0\<close>, and the truthiness of a number (\<^verbatim>\<open>x || 0\<close>).\<close>

fun js_positive :: "jsnum \<Rightarrow> bool" where
  "js_positive (Num n) = (n > 0)"
| "js_positive PInf = True"
| "js_positive _ = False"

fun or_zero :: "jsnum \<Rightarrow> jsnum" where
  "or_zero NaN = Num 0"
| "or_zero x = x"

text \<open>
  \<^verbatim>\<open>isNaN(s)\<close> on a string converts it to a number first. The conversion accepts,
  between white space, the empty string, a signed decimal literal (digits with an
  optional fraction and exponent, or \<^verbatim>\<open>Infinity\<close>) and an unsigned hexadecimal, octal
  or binary literal; anything else is \<^verbatim>\<open>NaN\<close>.
\<close>

definition digits1 :: "(char \<Rightarrow> bool) \<Rightarrow> string \<Rightarrow> bool" where
  "digits1 P s = (s \<noteq> [] \<and> list_all P s)"

definition strip_sign :: "string \<Rightarrow> string" where
  "strip_sign s = (if s \<noteq> [] \<and> (hd s = CHR ''+'' \<or> hd s = CHR ''-'') then tl s else s)"

definition exponent_part :: "string \<Rightarrow> bool" where
  "exponent_part s =
     (s \<noteq> [] \<and> (hd s = CHR ''e'' \<or> hd s = CHR ''E'') \<and> digits1 is_digit (strip_sign (tl s)))"

definition unsigned_decimal :: "string \<Rightarrow> bool" where
  "unsigned_decimal s =
     (if s = ''Infinity'' then True
      else
        (let ip = takeWhile is_digit s; r = dropWhile is_digit s
         in if r = [] then ip \<noteq> []
            else if hd r = CHR ''.'' then
              (let fp = takeWhile is_digit (tl r); ex = dropWhile is_digit (tl r)
               in (ip \<noteq> [] \<or> fp \<noteq> []) \<and> (ex = [] \<or> exponent_part ex))
            else ip \<noteq> [] \<and> exponent_part r))"

definition non_decimal :: "string \<Rightarrow> bool" where
  "non_decimal s =
     (case s of
        z # x # r \<Rightarrow>
          z = CHR ''0'' \<and>
          ((x \<in> set ''xX'' \<and> digits1 is_hex_digit r) \<or>
           (x \<in> set ''oO'' \<and> digits1 is_octal_digit r) \<or>
           (x \<in> set ''bB'' \<and> digits1 is_binary_digit r))
      | _ \<Rightarrow> False)"

definition isNaN :: "string \<Rightarrow> bool" where
  "isNaN s =
     (let t = js_trim s
      in if t = [] then False
         else if non_decimal t then False
         else if unsigned_decimal (strip_sign t) then False
         else True)"

section \<open>The environment of one catalog build\<close>

text \<open>
  What the main process reads from outside: the platform, the environment variables and
  the home directory; Node's \<^verbatim>\<open>path.join\<close>; the file system as \<^verbatim>\<open>fs\<close> shows it
  (\<open>None\<close> where the call throws); the \<^verbatim>\<open>vdf\<close> package's parser (\<open>None\<close> where it
  throws); the clock, as read while the manifest at a path is processed; and the store's
  answer to a request (\<open>None\<close> where \<^verbatim>\<open>axios.get\<close> rejects: a timeout, a network
  failure or a status outside 2xx).
\<close>

datatype json = JNull | JBool bool | JNum rat | JStr string | JArr "json list"
  | JObj "(string \<times> json) list"

record env =
  platform :: string
  env_var :: "string \<Rightarrow> string option"
  homedir :: string
  path_join :: "string list \<Rightarrow> string"
  existsSync :: "string \<Rightarrow> bool"
  readFileSync :: "string \<Rightarrow> string option"
  vdf_parse :: "string \<Rightarrow> vdf option"
  readdirSync :: "string \<Rightarrow> string list option"
  isDirectory :: "string \<Rightarrow> bool option"
  date_now :: "string \<Rightarrow> int"
  axios_get :: "string \<Rightarrow> json option"

datatype exn = TypeError | FsError | NetError

section \<open>\<^verbatim>\<open>getSteamPaths\<close>, \<^verbatim>\<open>parseVDF\<close>\<close>

definition env_or :: "env \<Rightarrow> string \<Rightarrow> string \<Rightarrow> string" where
  "env_or E name d = (case env_var E name of Some v \<Rightarrow> (if v = [] then d else v) | None \<Rightarrow> d)"

definition candidate_paths :: "env \<Rightarrow> string list" where
  "candidate_paths E =
     (if platform E = ''win32'' then
        (let programFiles = env_or E ''PROGRAMFILES'' (''C:'' @ [CHR 0x5C] @ ''Program Files'');
             programFilesX86 =
               env_or E ''PROGRAMFILES(X86)'' (''C:'' @ [CHR 0x5C] @ ''Program Files (x86)'')
         in [path_join E [programFiles, ''Steam''], path_join E [programFilesX86, ''Steam'']])
      else if platform E = ''darwin'' then
        [path_join E [homedir E, ''Library'', ''Application Support'', ''Steam'']]
      else if platform E = ''linux'' then
        [path_join E [homedir E, ''.steam'', ''steam''],
         path_join E [homedir E, ''.local'', ''share'', ''Steam'']]
      else [])"

definition getSteamPaths :: "env \<Rightarrow> string list" where
  "getSteamPaths E = filter (existsSync E) (candidate_paths E)"

text \<open>A failed read or parse is caught and gives \<^verbatim>\<open>null\<close>.\<close>

definition parseVDF :: "env \<Rightarrow> string \<Rightarrow> vdf option" where
  "parseVDF E filePath =
     (case readFileSync E filePath of None \<Rightarrow> None | Some data \<Rightarrow> vdf_parse E data)"

section \<open>\<^verbatim>\<open>getSteamLibraries\<close>\<close>

text \<open>\<^verbatim>\<open>libPath.replace(/\\\\/g, '/')\<close>: every pair of backslashes becomes a slash.\<close>

fun replace_backslashes :: "string \<Rightarrow> string" where
  "replace_backslashes (a # b # cs) =
     (if a = CHR 0x5C \<and> b = CHR 0x5C then CHR ''/'' # replace_backslashes cs
      else a # replace_backslashes (b # cs))"
| "replace_backslashes cs = cs"

text \<open>\<^verbatim>\<open>Array.from(new Set(xs))\<close>: the first occurrence of each element, in order.\<close>

definition set_add :: "'a \<Rightarrow> 'a list \<Rightarrow> 'a list" where
  "set_add x acc = (if x \<in> set acc then acc else acc @ [x])"

definition from_set :: "'a list \<Rightarrow> 'a list" where
  "from_set xs = fold set_add xs []"

text \<open>The body of the loop over the descriptor's entries: the libraries it pushes.\<close>

definition folder_libraries :: "env \<Rightarrow> string \<times> vdf \<Rightarrow> string list" where
  "folder_libraries E = (\<lambda>(key, folder).
     if \<not> isNaN key then
       (case or_default (vget folder ''path'') folder of
          Str libPath \<Rightarrow>
            (let libPath = replace_backslashes libPath
             in if existsSync E libPath then [path_join E [libPath, ''steamapps'']] else [])
        | Obj kvs \<Rightarrow> [])
     else [])"

definition getSteamLibraries :: "env \<Rightarrow> string \<Rightarrow> string list" where
  "getSteamLibraries E basePath =
     (let libraries = [path_join E [basePath, ''steamapps'']];
          vdfPath = path_join E [basePath, ''steamapps'', ''libraryfolders.vdf'']
      in if \<not> existsSync E vdfPath then libraries
         else
           (case truthy_val (parseVDF E vdfPath) of
              None \<Rightarrow> libraries
            | Some parsed \<Rightarrow>
                (let folders =
                       or_default
                         (or_else (vget parsed ''LibraryFolders'') (vget parsed ''libraryfolders''))
                         (Obj [])
                 in from_set
                      (libraries @ concat (map (folder_libraries E) (enumerate_props folders))))))"

section \<open>\<^verbatim>\<open>getSteamUsers\<close>\<close>

text \<open>
  The callback of \<^verbatim>\<open>filter\<close> calls \<^verbatim>\<open>statSync\<close> on every entry; when one call
  throws, the \<^verbatim>\<open>catch\<close> returns the empty list.
\<close>

fun keep_users :: "env \<Rightarrow> string \<Rightarrow> string list \<Rightarrow> string list option" where
  "keep_users E userdataPath [] = Some []"
| "keep_users E userdataPath (f # fs) =
     (case isDirectory E (path_join E [userdataPath, f]) of
        None \<Rightarrow> None
      | Some d \<Rightarrow>
          (case keep_users E userdataPath fs of
             None \<Rightarrow> None
           | Some us \<Rightarrow> Some (if d \<and> \<not> isNaN f then f # us else us)))"

definition getSteamUsers :: "env \<Rightarrow> string \<Rightarrow> string list" where
  "getSteamUsers E basePath =
     (let userdataPath = path_join E [basePath, ''userdata'']
      in if \<not> existsSync E userdataPath then []
         else
           (case readdirSync E userdataPath of
              None \<Rightarrow> []
            | Some fs \<Rightarrow> (case keep_users E userdataPath fs of None \<Rightarrow> [] | Some us \<Rightarrow> us)))"

section \<open>\<^verbatim>\<open>readUserPlaytime\<close>\<close>

text \<open>\<^verbatim>\<open>node.Key || node.key\<close>: the two casings of a key that the source reads.\<close>

definition probe :: "vdf \<Rightarrow> string \<Rightarrow> string \<Rightarrow> vdf option" where
  "probe node k1 k2 = or_else (vget node k1) (vget node k2)"

text \<open>The walk down to the table of applications; each missing section returns early.\<close>

definition find_apps :: "vdf \<Rightarrow> vdf option" where
  "find_apps localConfig =
     (case truthy_val (probe localConfig ''UserLocalConfigStore'' ''userlocalconfigstore'') of
        None \<Rightarrow> None
      | Some userStore \<Rightarrow>
     (case truthy_val (probe userStore ''Software'' ''software'') of
        None \<Rightarrow> None
      | Some software \<Rightarrow>
     (case truthy_val (probe software ''Valve'' ''valve'') of
        None \<Rightarrow> None
      | Some valve \<Rightarrow>
     (case truthy_val (probe valve ''Steam'' ''steam'') of
        None \<Rightarrow> None
      | Some steam \<Rightarrow> truthy_val (probe steam ''Apps'' ''apps'')))))"

text \<open>
  \<^verbatim>\<open>playtimes[appid] = playtime\<close> on the object literal \<^verbatim>\<open>{}\<close>: an assignment to
  \<^verbatim>\<open>__proto__\<close> with a number creates no property.
\<close>

definition js_assign :: "string \<Rightarrow> jsnum \<Rightarrow> (string \<times> jsnum) list \<Rightarrow> (string \<times> jsnum) list" where
  "js_assign k v m = (if k = ''__proto__'' then m else AList.update k v m)"

definition playtime_entry ::
    "string \<times> vdf \<Rightarrow> (string \<times> jsnum) list \<Rightarrow> (string \<times> jsnum) list" where
  "playtime_entry = (\<lambda>(aid, appData) playtimes.
     if truthy (Some appData) \<and> truthy (probe appData ''Playtime'' ''playtime'') then
       (let playtime =
              parseInt (toString (Some (or_default (probe appData ''Playtime'' ''playtime'') (Str ''0''))))
        in if js_positive playtime then js_assign aid playtime playtimes else playtimes)
     else playtimes)"

definition readUserPlaytime :: "env \<Rightarrow> string \<Rightarrow> (string \<times> jsnum) list" where
  "readUserPlaytime E userPath =
     (let localConfigPath = path_join E [userPath, ''config'', ''localconfig.vdf'']
      in if \<not> existsSync E localConfigPath then []
         else
           (case truthy_val (parseVDF E localConfigPath) of
              None \<Rightarrow> []
            | Some localConfig \<Rightarrow>
                (case find_apps localConfig of
                   None \<Rightarrow> []
                 | Some apps \<Rightarrow> fold playtime_entry (enumerate_props apps) [])))"

section \<open>\<^verbatim>\<open>fetchThumbnail\<close>\<close>

text \<open>
  Truthiness of a payload value. A number of the payload is given by its value, a
  fraction; the program only tests whether it is zero.
\<close>

fun jtruthy :: "json option \<Rightarrow> bool" where
  "jtruthy None = False"
| "jtruthy (Some JNull) = False"
| "jtruthy (Some (JBool b)) = b"
| "jtruthy (Some (JNum n)) = (n \<noteq> 0)"
| "jtruthy (Some (JStr s)) = (s \<noteq> [])"
| "jtruthy (Some (JArr xs)) = True"
| "jtruthy (Some (JObj kvs)) = True"

definition index_of :: "string \<Rightarrow> nat \<Rightarrow> nat option" where
  "index_of k n = List.find (\<lambda>i. dec i = k) [0..<n]"

text \<open>
  \<^verbatim>\<open>v[k]\<close> on a payload: a \<^verbatim>\<open>TypeError\<close> on \<^verbatim>\<open>null\<close> and \<^verbatim>\<open>undefined\<close>, the own
  property of an object, the element of an array or string at an index, and
  \<^verbatim>\<open>undefined\<close> otherwise. (A member inherited from a prototype, or \<^verbatim>\<open>length\<close>, has
  no member \<^verbatim>\<open>success\<close>, so the function below returns what it returns on
  \<^verbatim>\<open>undefined\<close>.)
\<close>

fun jget :: "json option \<Rightarrow> string \<Rightarrow> exn + json option" where
  "jget None k = Inl TypeError"
| "jget (Some JNull) k = Inl TypeError"
| "jget (Some (JObj kvs)) k = Inr (map_of kvs k)"
| "jget (Some (JArr xs)) k =
     Inr (case index_of k (length xs) of Some i \<Rightarrow> Some (xs ! i) | None \<Rightarrow> None)"
| "jget (Some (JStr s)) k =
     Inr (case index_of k (length s) of Some i \<Rightarrow> Some (JStr [s ! i]) | None \<Rightarrow> None)"
| "jget (Some (JBool b)) k = Inr None"
| "jget (Some (JNum n)) k = Inr None"

definition thumbnail_url :: "vdf \<Rightarrow> string" where
  "thumbnail_url aid = ''https://store.steampowered.com/api/appdetails?appids='' @ toString (Some aid)"

text \<open>The body of the \<^verbatim>\<open>try\<close>: \<open>Inl\<close> is what it throws, \<open>Inr\<close> what the function returns.\<close>

definition fetchThumbnail_try :: "env \<Rightarrow> vdf \<Rightarrow> exn + json option" where
  "fetchThumbnail_try E aid =
     (case axios_get E (thumbnail_url aid) of
        None \<Rightarrow> Inl NetError
      | Some payload \<Rightarrow>
     (case jget (Some payload) (toString (Some aid)) of
        Inl x \<Rightarrow> Inl x
      | Inr entry \<Rightarrow>
          if \<not> jtruthy entry then Inr (Some JNull)
          else
     (case jget entry ''success'' of
        Inl x \<Rightarrow> Inl x
      | Inr ok \<Rightarrow>
          if \<not> jtruthy ok then Inr (Some JNull)
          else
     (case jget entry ''data'' of
        Inl x \<Rightarrow> Inl x
      | Inr d \<Rightarrow> jget d ''header_image''))))"

text \<open>The \<^verbatim>\<open>catch\<close> logs the error; the function then returns \<^verbatim>\<open>null\<close>.\<close>

definition fetchThumbnail :: "env \<Rightarrow> vdf \<Rightarrow> json option" where
  "fetchThumbnail E aid = (case fetchThumbnail_try E aid of Inl x \<Rightarrow> Some JNull | Inr v \<Rightarrow> v)"

section \<open>\<^verbatim>\<open>isActualGame\<close>\<close>

definition nonGameAppIds :: "string list" where
  "nonGameAppIds =
     [''228980'', ''1070560'', ''1391110'', ''1628350'', ''323370'', ''858280'', ''996510'',
      ''1054830'', ''1113280'', ''1245040'', ''1420170'', ''1887720'', ''2180100'']"

definition nonGamePatterns :: "string list" where
  "nonGamePatterns =
     [''steamworks'', ''redistributable'', ''redist'', ''vcredist'', ''directx'', ''runtime'',
      ''proton'', ''steam linux runtime'', ''common redistributables'', ''spacewar'',
      ''steam controller'', ''steam link'', ''benchmark'', ''demo'', ''beta'', ''test'',
      ''development'', ''sdk'', ''toolkit'', ''editor'', ''launcher'', ''updater'']"

definition nonGameDirPatterns :: "string list" where
  "nonGameDirPatterns = [''steamworks'', ''redist'', ''runtime'', ''proton'', ''common_redist'']"

text \<open>\<^verbatim>\<open>(v || '').toLowerCase()\<close>: a \<^verbatim>\<open>TypeError\<close> when the value is an object.\<close>

definition lowered :: "vdf option \<Rightarrow> exn + string" where
  "lowered v = (case or_default v (Str []) of Str s \<Rightarrow> Inr (toLowerCase s) | Obj kvs \<Rightarrow> Inl TypeError)"

text \<open>\<^verbatim>\<open>nonGameAppIds.has(appid)\<close>: no object is a member of a set of strings.\<close>

definition has_appid :: "string list \<Rightarrow> vdf \<Rightarrow> bool" where
  "has_appid ids aid = (case aid of Str s \<Rightarrow> s \<in> set ids | Obj kvs \<Rightarrow> False)"

definition isActualGame :: "vdf \<Rightarrow> vdf \<Rightarrow> exn + bool" where
  "isActualGame appInfo aid =
     (case lowered (vget appInfo ''name'') of
        Inl x \<Rightarrow> Inl x
      | Inr name \<Rightarrow>
     (case lowered (vget appInfo ''installdir'') of
        Inl x \<Rightarrow> Inl x
      | Inr installDir \<Rightarrow>
          if has_appid nonGameAppIds aid then Inr False
          else if list_ex (str_includes name) nonGamePatterns then Inr False
          else if list_ex (str_includes installDir) nonGameDirPatterns then Inr False
          else if \<not> truthy (vget appInfo ''name'') then Inr False
          else if length (js_trim (toString (vget appInfo ''name''))) = 0 then Inr False
          else
     (case lowered (vget appInfo ''type'') of
        Inl x \<Rightarrow> Inl x
      | Inr toolType \<Rightarrow>
          if toolType = ''tool'' \<or> toolType = ''config'' \<or> toolType = ''application''
          then Inr False
          else Inr True)))"

section \<open>The installed-state filter (\<^verbatim>\<open>fetchAllGames\<close>, lines 300-304)\<close>

text \<open>
  \<^verbatim>\<open>const stateFlags = parseInt(info.StateFlags || '0', 10);\<close>
  \<^verbatim>\<open>if ((stateFlags & 4) !== 4) continue;\<close>
\<close>

definition installed_bit :: "jsnum \<Rightarrow> bool" where
  "installed_bit stateFlags = (toInt32 stateFlags AND 4 = 4)"

definition fully_installed :: "vdf \<Rightarrow> bool" where
  "fully_installed info =
     (let stateFlags = parseInt (toString (Some (or_default (vget info ''StateFlags'') (Str ''0''))))
      in installed_bit stateFlags)"

section \<open>The playtime merge (\<^verbatim>\<open>fetchAllGames\<close>, lines 306-322)\<close>

text \<open>The members every object inherits from \<^verbatim>\<open>Object.prototype\<close>.\<close>

definition Object_prototype_names :: "string list" where
  "Object_prototype_names =
     [''constructor'', ''__defineGetter__'', ''__defineSetter__'', ''hasOwnProperty'',
      ''__lookupGetter__'', ''__lookupSetter__'', ''isPrototypeOf'', ''propertyIsEnumerable'',
      ''toString'', ''valueOf'', ''__proto__'', ''toLocaleString'']"

text \<open>
  \<^verbatim>\<open>userPlaytimes[user][appid] || 0\<close> as \<^verbatim>\<open>Math.max\<close> reads it: the minutes stored
  under the key; 0 when there is none; \<^verbatim>\<open>NaN\<close> when the key names an inherited
  member (a function or an object, which is truthy and converts to \<^verbatim>\<open>NaN\<close>).
\<close>

definition userTime :: "(string \<times> jsnum) list \<Rightarrow> string \<Rightarrow> jsnum" where
  "userTime playtimes key =
     (case map_of playtimes key of
        Some v \<Rightarrow> or_zero v
      | None \<Rightarrow> if key \<in> set Object_prototype_names then NaN else Num 0)"

definition max_user_playtime :: "(string \<times> (string \<times> jsnum) list) list \<Rightarrow> vdf \<Rightarrow> jsnum" where
  "max_user_playtime userPlaytimes aid =
     fold (\<lambda>(user, playtimes) playtime. js_max playtime (userTime playtimes (toString (Some aid))))
       userPlaytimes (Num 0)"

text \<open>
  \<^verbatim>\<open>(now - lastUpdated) / (24 * 60 * 60) < 30\<close>. On whole numbers the difference and
  the quotient are taken exactly: rounding them to doubles moves neither across the
  bounds 2592000 and 30, which are doubles themselves. An infinite \<^verbatim>\<open>lastUpdated\<close>
  makes the quotient the opposite infinity.
\<close>

definition daysSinceUpdate :: "int \<Rightarrow> int \<Rightarrow> rat" where
  "daysSinceUpdate now lastUpdated = of_int (now - lastUpdated) / (24 * 60 * 60)"

fun recently_updated :: "int \<Rightarrow> jsnum \<Rightarrow> bool" where
  "recently_updated now (Num t) = (daysSinceUpdate now t < 30)"
| "recently_updated now PInf = True"
| "recently_updated now NaN = False"
| "recently_updated now NInf = False"

text \<open>The three steps on \<^verbatim>\<open>playtime\<close>; \<open>now_ms\<close> is \<^verbatim>\<open>Date.now()\<close>.\<close>

definition merge_playtime ::
    "(string \<times> (string \<times> jsnum) list) list \<Rightarrow> vdf \<Rightarrow> vdf \<Rightarrow> int \<Rightarrow> jsnum" where
  "merge_playtime userPlaytimes info aid now_ms =
     (let playtime = max_user_playtime userPlaytimes aid;
          playtime =
            (if playtime = Num 0 \<and> truthy (vget info ''PlaytimeForever'')
             then parseInt (toString (vget info ''PlaytimeForever''))
             else playtime);
          playtime =
            (if playtime = Num 0 \<and> truthy (vget info ''LastUpdated'') then
               (let lastUpdated = parseInt (toString (vget info ''LastUpdated''));
                    now = now_ms div 1000
                in if recently_updated now lastUpdated then Num 1 else playtime)
             else playtime)
      in playtime)"

section \<open>\<^verbatim>\<open>fetchAllGames\<close>\<close>

record game =
  appid :: vdf
  title :: vdf
  installDir :: string
  playtime :: jsnum
  thumbnail :: "json option"
  raw :: vdf

text \<open>
  One manifest of a library: the entries it pushes (none when it is skipped), or the error
  it throws. The inner \<^verbatim>\<open>try\<close> around \<^verbatim>\<open>fetchThumbnail\<close> has nothing to catch, since
  that function catches its own errors.
\<close>

definition process_manifest ::
    "env \<Rightarrow> (string \<times> (string \<times> jsnum) list) list \<Rightarrow> string \<Rightarrow> string \<Rightarrow> exn + game list" where
  "process_manifest E userPlaytimes lib manifest =
     (let manifestPath = path_join E [lib, manifest]
      in case truthy_val (parseVDF E manifestPath) of
           None \<Rightarrow> Inr []
         | Some d \<Rightarrow>
        (case truthy_val (vget d ''AppState'') of
           None \<Rightarrow> Inr []
         | Some info \<Rightarrow>
        (case truthy_val (or_else (vget info ''appid'') (vget info ''AppID'')) of
           None \<Rightarrow> Inr []
         | Some aid \<Rightarrow>
        (case isActualGame info aid of
           Inl x \<Rightarrow> Inl x
         | Inr actual \<Rightarrow>
             if \<not> actual then Inr []
             else if \<not> fully_installed info then Inr []
             else
               Inr [\<lparr>appid = aid,
                     title = or_default (vget info ''name'') (Str ''Unknown''),
                     installDir =
                       path_join E
                         [lib, ''common'', toString (Some (or_default (vget info ''installdir'') (Str [])))],
                     playtime = merge_playtime userPlaytimes info aid (date_now E manifestPath),
                     thumbnail = fetchThumbnail E aid,
                     raw = info\<rparr>]))))"

text \<open>A loop that pushes entries and stops at the first error thrown.\<close>

fun collect :: "('a \<Rightarrow> exn + 'b list) \<Rightarrow> 'a list \<Rightarrow> exn + 'b list" where
  "collect f [] = Inr []"
| "collect f (x # xs) =
     (case f x of
        Inl e \<Rightarrow> Inl e
      | Inr ys \<Rightarrow> (case collect f xs of Inl e \<Rightarrow> Inl e | Inr zs \<Rightarrow> Inr (ys @ zs)))"

definition is_manifest_name :: "string \<Rightarrow> bool" where
  "is_manifest_name f = (startsWith f ''appmanifest_'' \<and> endsWith f ''.acf'')"

definition scan_library ::
    "env \<Rightarrow> (string \<times> (string \<times> jsnum) list) list \<Rightarrow> string \<Rightarrow> exn + game list" where
  "scan_library E userPlaytimes lib =
     (if \<not> existsSync E lib then Inr []
      else
        (case readdirSync E lib of
           None \<Rightarrow> Inl FsError
         | Some files \<Rightarrow>
             collect (process_manifest E userPlaytimes lib) (filter is_manifest_name files)))"

definition read_users :: "env \<Rightarrow> string \<Rightarrow> string list \<Rightarrow> (string \<times> (string \<times> jsnum) list) list" where
  "read_users E base users =
     fold (\<lambda>user userPlaytimes.
            AList.update user (readUserPlaytime E (path_join E [base, ''userdata'', user])) userPlaytimes)
       users []"

definition scan_base :: "env \<Rightarrow> string \<Rightarrow> exn + game list" where
  "scan_base E base =
     (let libraries = getSteamLibraries E base;
          users = getSteamUsers E base;
          userPlaytimes = read_users E base users
      in collect (scan_library E userPlaytimes) libraries)"

definition fetchAllGames :: "env \<Rightarrow> exn + game list" where
  "fetchAllGames E =
     (let steamBases = getSteamPaths E
      in if length steamBases = 0 then Inr [] else collect (scan_base E) steamBases)"

section \<open>Views of the build used to state its properties\<close>

text \<open>
  The table of folders of a parsed descriptor
  (\<^verbatim>\<open>parsed.LibraryFolders || parsed.libraryfolders || {}\<close>), and the path strings it
  declares: under each key that converts to a number, the \<^verbatim>\<open>path\<close> member of the
  entry or the entry itself, when that is a string.
\<close>

definition folders_of :: "vdf \<Rightarrow> vdf" where
  "folders_of parsed =
     or_default (or_else (vget parsed ''LibraryFolders'') (vget parsed ''libraryfolders'')) (Obj [])"

definition declared_paths :: "vdf \<Rightarrow> string list" where
  "declared_paths folders =
     concat (map (\<lambda>(key, folder).
                    if isNaN key then []
                    else (case or_default (vget folder ''path'') folder of
                            Str libPath \<Rightarrow> [libPath]
                          | Obj kvs \<Rightarrow> []))
               (enumerate_props folders))"

text \<open>
  The environment in which the request to the address \<open>u\<close> is answered by \<open>r\<close>
  (\<open>None\<close>: the request fails), and an entry with its thumbnail looked up again when
  its request goes to \<open>u\<close>.
\<close>

definition with_answer :: "env \<Rightarrow> string \<Rightarrow> json option \<Rightarrow> env" where
  "with_answer E u r = E\<lparr>axios_get := (axios_get E)(u := r)\<rparr>"

definition look_again :: "env \<Rightarrow> string \<Rightarrow> game \<Rightarrow> game" where
  "look_again E u g =
     (if thumbnail_url (appid g) = u then g\<lparr>thumbnail := fetchThumbnail E (appid g)\<rparr> else g)"

text \<open>
  A payload in which every read of \<^verbatim>\<open>fetchThumbnail\<close> succeeds: it has, under the
  identifier, a truthy entry with a truthy \<^verbatim>\<open>success\<close> and a \<^verbatim>\<open>data\<close> member that
  is neither \<^verbatim>\<open>null\<close> nor \<^verbatim>\<open>undefined\<close>.
\<close>

definition expected_shape :: "json \<Rightarrow> string \<Rightarrow> bool" where
  "expected_shape p key =
     (case jget (Some p) key of
        Inl x \<Rightarrow> False
      | Inr entry \<Rightarrow>
          jtruthy entry \<and>
          (case jget entry ''success'' of
             Inl x \<Rightarrow> False
           | Inr ok \<Rightarrow>
               jtruthy ok \<and>
               (case jget entry ''data'' of
                  Inl x \<Rightarrow> False
                | Inr d \<Rightarrow> (case jget d ''header_image'' of Inl x \<Rightarrow> False | Inr h \<Rightarrow> True))))"

text \<open>The \<^verbatim>\<open>header_image\<close> of such a payload (\<open>None\<close>: the member is missing).\<close>

definition header_image_of :: "json \<Rightarrow> string \<Rightarrow> json option" where
  "header_image_of p key =
     (case jget (Some p) key of
        Inl x \<Rightarrow> None
      | Inr entry \<Rightarrow>
          (case jget entry ''data'' of
             Inl x \<Rightarrow> None
           | Inr d \<Rightarrow> (case jget d ''header_image'' of Inl x \<Rightarrow> None | Inr h \<Rightarrow> h)))"

text \<open>
  A tree that nests one section per entry of \<open>ks\<close> around \<open>v\<close>: at each level the
  section is the first property of its node, followed by the given sibling properties.
\<close>

definition nest :: "(string \<times> (string \<times> vdf) list) list \<Rightarrow> vdf \<Rightarrow> vdf" where
  "nest ks v = foldr (\<lambda>(k, siblings) t. Obj ((k, t) # siblings)) ks v"

text \<open>
  The shape of a node, read off its list of properties: \<open>child\<close> is the value of a
  property literally named \<open>k\<close>; the names of the node's properties; and \<open>child\<close>
  is the section of a node whose names are distinct (as those of an object are), under the
  name \<open>k1\<close>, or under the name \<open>k2\<close> when the node has no property named
  \<open>k1\<close>.
\<close>

definition keyed :: "vdf \<Rightarrow> string \<Rightarrow> vdf \<Rightarrow> bool" where
  "keyed node k child = (case node of Obj kvs \<Rightarrow> (k, child) \<in> set kvs | Str s \<Rightarrow> False)"

definition keys_of :: "vdf \<Rightarrow> string list" where
  "keys_of node = (case node of Obj kvs \<Rightarrow> map fst kvs | Str s \<Rightarrow> [])"

definition section_at :: "vdf \<Rightarrow> string \<Rightarrow> string \<Rightarrow> vdf \<Rightarrow> bool" where
  "section_at node k1 k2 child =
     (distinct (keys_of node) \<and>
      (keyed node k1 child \<or> (keyed node k2 child \<and> k1 \<notin> set (keys_of node))))"

section \<open>Concrete environments\<close>

text \<open>
  The theorems below are instantiated on small environments. \<open>posix_join\<close> stands for
  \<^verbatim>\<open>path.join\<close> on the segments used here (no dots, no trailing slashes): the non-empty
  segments joined by a slash.
\<close>

definition posix_join :: "string list \<Rightarrow> string" where
  "posix_join parts =
     (case filter (\<lambda>p. p \<noteq> []) parts of
        [] \<Rightarrow> ''.''
      | p # ps \<Rightarrow> foldl (\<lambda>a b. a @ ''/'' @ b) p ps)"

text \<open>A Linux machine with an empty disk.\<close>

definition bare_env :: env where
  "bare_env =
     \<lparr>platform = ''linux'', env_var = (\<lambda>name. None), homedir = ''/home/u'',
      path_join = posix_join, existsSync = (\<lambda>p. False), readFileSync = (\<lambda>p. None),
      vdf_parse = (\<lambda>data. None), readdirSync = (\<lambda>p. None), isDirectory = (\<lambda>p. None),
      date_now = (\<lambda>p. 0), axios_get = (\<lambda>url. None)\<rparr>"

text \<open>
  A user-profile directory with the directories \<^verbatim>\<open>1001\<close>, \<^verbatim>\<open>1e3\<close> and \<^verbatim>\<open>ac\<close>
  and the file \<^verbatim>\<open>20.txt\<close>.
\<close>

definition users_env :: env where
  "users_env =
     bare_env
       \<lparr>existsSync := (\<lambda>p. p = ''/home/u/.steam/steam/userdata''),
        readdirSync := (\<lambda>p. if p = ''/home/u/.steam/steam/userdata''
                            then Some [''1001'', ''1e3'', ''ac'', ''20.txt''] else None),
        isDirectory := (\<lambda>p. Some (p \<noteq> ''/home/u/.steam/steam/userdata/20.txt''))\<rparr>"


text \<open>
  A manifest of a fully installed title, and installation roots whose primary library
  holds the given manifest files (name, text, and the tree the parser returns for the
  text; the texts are abbreviated).
\<close>

definition manifest :: "string \<Rightarrow> string \<Rightarrow> (string \<times> vdf) list \<Rightarrow> vdf" where
  "manifest aid name extra =
     Obj [(''AppState'',
           Obj ([(''appid'', Str aid), (''name'', Str name), (''StateFlags'', Str ''4''),
                 (''installdir'', Str name)] @ extra))]"

definition library_env :: "string list \<Rightarrow> (string \<times> string \<times> vdf) list \<Rightarrow> env" where
  "library_env roots files =
     bare_env
       \<lparr>existsSync := (\<lambda>p. p \<in> set (roots @ map (\<lambda>r. r @ ''/steamapps'') roots)),
        readFileSync :=
          map_of (concat (map (\<lambda>r. map (\<lambda>(n, t, v). (r @ ''/steamapps/'' @ n, t)) files) roots)),
        vdf_parse := map_of (map (\<lambda>(n, t, v). (t, v)) files),
        readdirSync := (\<lambda>p. if p \<in> set (map (\<lambda>r. r @ ''/steamapps'') roots)
                            then Some (map fst files) else None)\<rparr>"

definition portal_file :: "(string \<times> vdf) list \<Rightarrow> string \<times> string \<times> vdf" where
  "portal_file extra =
     (''appmanifest_400.acf'', ''(text of appmanifest_400.acf)'', manifest ''400'' ''Portal'' extra)"

definition half_life_file :: "string \<times> string \<times> vdf" where
  "half_life_file =
     (''appmanifest_70.acf'', ''(text of appmanifest_70.acf)'', manifest ''70'' ''Half-Life'' [])"

text \<open>One root, one title whose manifest has a total-playtime field.\<close>

definition total_playtime_env :: "string \<Rightarrow> env" where
  "total_playtime_env v =
     library_env [''/home/u/.steam/steam''] [portal_file [(''PlaytimeForever'', Str v)]]"

text \<open>
  Both candidate roots of Linux exist and hold the same manifest (as when one is a link
  to the other).
\<close>

definition two_roots_env :: env where
  "two_roots_env =
     library_env [''/home/u/.steam/steam'', ''/home/u/.local/share/Steam''] [portal_file []]"

text \<open>One root with two titles, and a store that answers for both.\<close>

definition two_titles_env :: env where
  "two_titles_env = library_env [''/home/u/.steam/steam''] [portal_file [], half_life_file]"

definition payload :: "string \<Rightarrow> string \<Rightarrow> json" where
  "payload aid img =
     JObj [(aid, JObj [(''success'', JBool True), (''data'', JObj [(''header_image'', JStr img)])])]"

definition store_env :: env where
  "store_env =
     two_titles_env
       \<lparr>axios_get :=
          map_of
            [(''https://store.steampowered.com/api/appdetails?appids=400'',
              payload ''400'' ''https://cdn.example/400/header.jpg''),
             (''https://store.steampowered.com/api/appdetails?appids=70'',
              payload ''70'' ''https://cdn.example/70/header.jpg'')]\<rparr>"

text \<open>
  A root whose library-folders descriptor declares the root itself (entry 0) and a second
  disk (entry 1).
\<close>

definition declared_primary_env :: env where
  "declared_primary_env =
     bare_env
       \<lparr>existsSync := (\<lambda>p. p \<in> set [''/home/u/.steam/steam'',
                                       ''/home/u/.steam/steam/steamapps/libraryfolders.vdf'',
                                       ''/mnt/games'']),
        readFileSync := map_of [(''/home/u/.steam/steam/steamapps/libraryfolders.vdf'',
                                 ''(text of libraryfolders.vdf)'')],
        vdf_parse := map_of [(''(text of libraryfolders.vdf)'',
                              Obj [(''libraryfolders'',
                                    Obj [(''0'', Obj [(''path'', Str ''/home/u/.steam/steam'')]),
                                         (''1'', Obj [(''path'', Str ''/mnt/games'')])])])]\<rparr>"

text \<open>The table of applications of a local configuration with 30 minutes for title 400.\<close>

definition apps_table :: vdf where
  "apps_table = Obj [(''400'', Obj [(''Playtime'', Str ''30'')])]"

text \<open>
  A local configuration whose sections stand among other properties, in mixed casings;
  and the same with a string named \<^verbatim>\<open>Apps\<close> beside the section \<^verbatim>\<open>apps\<close>.
\<close>

definition steam_node :: "(string \<times> vdf) list \<Rightarrow> vdf" where
  "steam_node first =
     Obj (first @ [(''LastPlayedTimesSyncTime'', Str ''1700000000''), (''apps'', apps_table)])"

definition localconfig :: "vdf \<Rightarrow> vdf" where
  "localconfig steam =
     Obj [(''UserRoamingConfigStore'', Obj []),
          (''userlocalconfigstore'',
           Obj [(''Broadcast'', Obj []),
                (''Software'',
                 Obj [(''valve'', Obj [(''SteamVR'', Str ''1''), (''Steam'', steam)])])])]"

text \<open>
  A Windows root \<^verbatim>\<open>C:\Steam\<close> whose descriptor declares the root itself and a second
  disk, with the backslashes doubled as the descriptor's text has them. \<open>win_join\<close>
  stands for \<^verbatim>\<open>path.join\<close> of Windows on drive paths without dots or repeated
  separators: the non-empty segments joined by a backslash, every slash turned into a
  backslash. The disk answers for a folder under each spelling.
\<close>

definition bs :: string where
  "bs = [CHR 0x5C]"

definition win_join :: "string list \<Rightarrow> string" where
  "win_join parts =
     map (\<lambda>c. if c = CHR ''/'' then CHR 0x5C else c)
       (case filter (\<lambda>p. p \<noteq> []) parts of
          [] \<Rightarrow> ''.''
        | p # ps \<Rightarrow> foldl (\<lambda>a b. a @ bs @ b) p ps)"

definition windows_env :: env where
  "windows_env =
     bare_env
       \<lparr>platform := ''win32'',
        path_join := win_join,
        existsSync := (\<lambda>p. p \<in> set [''C:'' @ bs @ ''Steam'' @ bs @ ''steamapps'' @ bs @ ''libraryfolders.vdf'',
                                       ''C:/Steam'', ''D:/Games'',
                                       ''C:'' @ bs @ bs @ ''Steam'', ''D:'' @ bs @ bs @ ''Games'']),
        readFileSync := map_of [(''C:'' @ bs @ ''Steam'' @ bs @ ''steamapps'' @ bs @ ''libraryfolders.vdf'',
                                 ''(text of libraryfolders.vdf)'')],
        vdf_parse := map_of [(''(text of libraryfolders.vdf)'',
                              Obj [(''libraryfolders'',
                                    Obj [(''0'', Obj [(''path'', Str (''C:'' @ bs @ bs @ ''Steam''))]),
                                         (''1'', Obj [(''path'', Str (''D:'' @ bs @ bs @ ''Games''))])])])]\<rparr>"

section \<open>Properties\<close>

lemma bit_4_int: "bit (4::int) n = (n = 2)"
  using bit_exp_iff [where ?'a = int, of 2 n] by auto

lemma bit_4_word: "bit (4::32 word) n = (n = 2)"
  using bit_exp_iff [where ?'a = "32 word", of 2 n] by auto

lemma word_and_4: "((w::32 word) AND 4 = 4) = bit w 2"
proof
  assume h: "w AND 4 = 4"
  have "bit (w AND 4) 2" unfolding h by (simp add: bit_4_word)
  then show "bit w 2" by (simp add: bit_and_iff)
next
  assume b: "bit w 2"
  have "bit (w AND 4) n = bit (4::32 word) n" for n
    using b by (auto simp add: bit_and_iff bit_4_word bit_4_int)
  then show "w AND 4 = 4"
    by (rule bit_eqI)
qed

lemma installed_bit_Num: "installed_bit (Num n) = bit n 2"
  by (simp add: installed_bit_def toInt32_def word_and_4 bit_word_of_int_iff)

lemmas str_simps = is_ws_def is_digit_def digits_val_def digit_val_def parseInt_def to_double_def
  round_double_def Let_def


subsection \<open>Evaluation on concrete inputs\<close>

lemmas isNaN_simps = isNaN_def js_trim_def is_ws_def non_decimal_def unsigned_decimal_def
  strip_sign_def exponent_part_def digits1_def is_digit_def is_hex_digit_def is_octal_digit_def
  is_binary_digit_def

lemmas env_simps = library_env_def bare_env_def posix_join_def manifest_def portal_file_def
  half_life_file_def total_playtime_env_def two_roots_env_def two_titles_env_def store_env_def
  payload_def declared_primary_env_def

lemmas catalog_simps = fetchAllGames_def getSteamPaths_def candidate_paths_def scan_base_def
  getSteamLibraries_def getSteamUsers_def read_users_def scan_library_def is_manifest_name_def
  startsWith_def endsWith_def process_manifest_def parseVDF_def truthy_val_def or_else_def
  isActualGame_def lowered_def toLowerCase_def lower_char_def upper_chars_def lower_chars_def
  has_appid_def nonGameAppIds_def
  nonGamePatterns_def nonGameDirPatterns_def js_trim_def fully_installed_def installed_bit_Num
  merge_playtime_def max_user_playtime_def userTime_def Object_prototype_names_def
  fetchThumbnail_def fetchThumbnail_try_def thumbnail_url_def
  is_ws_def bit_iff_odd

subsection \<open>C1: the installed-state filter\<close>



subsection \<open>C2: the maximum across users and the manifest's total playtime\<close>

text \<open>What holds of the first step: minutes recorded by a user win over the manifest.\<close>

lemma user_maximum_wins:
  "max_user_playtime userPlaytimes aid = Num n \<Longrightarrow> n \<noteq> 0 \<Longrightarrow>
     merge_playtime userPlaytimes info aid now_ms = Num n"
  by (simp add: merge_playtime_def)

text \<open>
  C2 at two inputs. With 30 minutes for user A, none for user B and a manifest total of
  10, the merged playtime is 30, as the claim says. With no minutes for any user and a
  manifest total of \<^verbatim>\<open>-5\<close>, the code takes the field although it is not positive: the
  merged playtime is \<open>-5\<close>.
\<close>

theorem fallback_takes_a_negative_total:
  "merge_playtime [(''A'', [(''X'', Num 30)]), (''B'', [])] (Obj [(''PlaytimeForever'', Str ''10'')])
     (Str ''X'') 1700000000000 = Num 30
   \<and> merge_playtime [(''A'', []), (''B'', [])] (Obj [(''PlaytimeForever'', Str ''-5'')])
     (Str ''X'') 1700000000000 = Num (- 5)"
  by (simp add: merge_playtime_def max_user_playtime_def userTime_def Object_prototype_names_def
      str_simps)

subsection \<open>C3: the sentinel for a recently updated title\<close>

lemma days_lt_30: "(daysSinceUpdate now t < 30) = (now - t < 30 * (24 * 60 * 60))"
proof -
  have "(daysSinceUpdate now t < 30) = ((of_int (now - t) :: rat) < of_int 2592000)"
    by (simp add: daysSinceUpdate_def)
  also have "\<dots> = (now - t < 2592000)"
    by (simp only: of_int_less_iff)
  finally show ?thesis by simp
qed

lemma fold_no_user_time:
  assumes "\<forall>(user, playtimes) \<in> set ups. userTime playtimes key = Num 0"
  shows "fold (\<lambda>(user, playtimes) playtime. js_max playtime (userTime playtimes key)) ups (Num 0)
           = Num 0"
  using assms by (induction ups) auto

text \<open>
  What holds of the third step. Take a manifest for whose identifier no user has minutes,
  and whose total-playtime field leaves the playtime at zero: the field is missing or
  empty, or reads as 0. Then the merged playtime is 1 when the manifest has a last-updated
  field that reads as a time \<open>t\<close> with \<open>now - t < 30 * 24 * 60 * 60\<close> seconds,
  \<open>now\<close> being the clock in whole seconds (or as a number too large for a double),
  and 0 otherwise: when the time is 30 days or more before now, when the field is missing
  or empty, and when it does not read as a number.
\<close>

lemma recently_updated_Num:
  "recently_updated now (Num t) = (now - t < 30 * (24 * 60 * 60))"
  by (simp add: days_lt_30)

lemma sentinel_when_still_zero:
  assumes "\<forall>(user, playtimes) \<in> set userPlaytimes. userTime playtimes (toString (Some aid)) = Num 0"
    and "\<not> truthy (vget info ''PlaytimeForever'')
         \<or> parseInt (toString (vget info ''PlaytimeForever'')) = Num 0"
  shows "merge_playtime userPlaytimes info aid now_ms =
     (if truthy (vget info ''LastUpdated'') \<and>
         (case parseInt (toString (vget info ''LastUpdated'')) of
            Num t \<Rightarrow> now_ms div 1000 - t < 30 * (24 * 60 * 60)
          | PInf \<Rightarrow> True
          | _ \<Rightarrow> False)
      then Num 1 else Num 0)"
proof -
  have m: "max_user_playtime userPlaytimes aid = Num 0"
    unfolding max_user_playtime_def by (rule fold_no_user_time [OF assms(1)])
  show ?thesis using assms(2)
    by (auto simp add: merge_playtime_def m Let_def days_lt_30 split: jsnum.split)
qed

text \<open>
  With the clock at 1700000000 seconds and one user who has minutes for another title
  only: a last update 10 days before gives 1; 40 days before gives 0; exactly 30 days
  before gives 0, and one second later gives 1; no last-updated field gives 0; and a
  total-playtime field of 0 changes nothing.
\<close>

lemma sentinel_examples:
  "merge_playtime [(''1001'', [(''70'', Num 30)])] (Obj [(''LastUpdated'', Str ''1699136000'')])
     (Str ''400'') 1700000000000 = Num 1
   \<and> merge_playtime [(''1001'', [(''70'', Num 30)])] (Obj [(''LastUpdated'', Str ''1696544000'')])
     (Str ''400'') 1700000000000 = Num 0
   \<and> merge_playtime [(''1001'', [(''70'', Num 30)])] (Obj [(''LastUpdated'', Str ''1697408000'')])
     (Str ''400'') 1700000000000 = Num 0
   \<and> merge_playtime [(''1001'', [(''70'', Num 30)])] (Obj [(''LastUpdated'', Str ''1697408001'')])
     (Str ''400'') 1700000000000 = Num 1
   \<and> merge_playtime [(''1001'', [(''70'', Num 30)])] (Obj []) (Str ''400'') 1700000000000 = Num 0
   \<and> merge_playtime [(''1001'', [(''70'', Num 30)])]
       (Obj [(''PlaytimeForever'', Str ''0''), (''LastUpdated'', Str ''1699136000'')])
     (Str ''400'') 1700000000000 = Num 1"
proof -
  have u: "\<forall>(user, playtimes) \<in> set [(''1001'', [(''70'', Num 30)])].
             userTime playtimes (toString (Some (Str ''400''))) = Num 0"
    by (simp add: userTime_def Object_prototype_names_def)
  have p: "\<not> truthy (vget (Obj [(k, Str v)]) ''PlaytimeForever'')
         \<or> parseInt (toString (vget (Obj [(k, Str v)]) ''PlaytimeForever'')) = Num 0"
    if "k \<noteq> ''PlaytimeForever''" for k v
    using that by simp
  have p0: "\<not> truthy (vget (Obj []) ''PlaytimeForever'')
         \<or> parseInt (toString (vget (Obj []) ''PlaytimeForever'')) = Num 0"
    by simp
  have p1: "\<not> truthy (vget (Obj [(''PlaytimeForever'', Str ''0''), (''LastUpdated'', Str ''1699136000'')])
                ''PlaytimeForever'')
         \<or> parseInt (toString (vget (Obj [(''PlaytimeForever'', Str ''0''),
                                           (''LastUpdated'', Str ''1699136000'')]) ''PlaytimeForever''))
             = Num 0"
    by (simp add: str_simps)
  have k: "''LastUpdated'' \<noteq> ''PlaytimeForever''" by simp
  show ?thesis
    using sentinel_when_still_zero [OF u p [OF k], of "''1699136000''" 1700000000000]
      sentinel_when_still_zero [OF u p [OF k], of "''1696544000''" 1700000000000]
      sentinel_when_still_zero [OF u p [OF k], of "''1697408000''" 1700000000000]
      sentinel_when_still_zero [OF u p [OF k], of "''1697408001''" 1700000000000]
      sentinel_when_still_zero [OF u p0, of 1700000000000]
      sentinel_when_still_zero [OF u p1, of 1700000000000]
    by (simp add: str_simps)
qed

text \<open>
  C3 at two inputs. No user has minutes for the title, and the manifest was last updated
  10 days before now, so the claim gives the sentinel 1 when the manifest has no usable
  total playtime. With the total-playtime field \<^verbatim>\<open>-5\<close> the code returns \<open>-5\<close>, and
  with the field \<^verbatim>\<open>unknown\<close> it returns \<^verbatim>\<open>NaN\<close>: the second step has taken the
  field, and the third step, which tests \<^verbatim>\<open>playtime === 0\<close>, is skipped.
\<close>

theorem unusable_total_blocks_the_sentinel:
  "merge_playtime [(''1001'', [(''70'', Num 30)])]
       (Obj [(''PlaytimeForever'', Str ''-5''), (''LastUpdated'', Str ''1699136000'')])
     (Str ''400'') 1700000000000 = Num (- 5)
   \<and> merge_playtime [(''1001'', [(''70'', Num 30)])]
       (Obj [(''PlaytimeForever'', Str ''unknown''), (''LastUpdated'', Str ''1699136000'')])
     (Str ''400'') 1700000000000 = NaN"
  by (simp add: merge_playtime_def max_user_playtime_def userTime_def Object_prototype_names_def
      str_simps)

subsection \<open>C4: the casings of a key\<close>

lemma probe_section:
  assumes "section_at node k1 k2 child" and "truthy (Some child)"
  shows "truthy_val (probe node k1 k2) = Some child"
proof (cases node)
  case (Str s)
  with assms(1) show ?thesis by (simp add: section_at_def keyed_def)
next
  case (Obj kvs)
  with assms(1) have d: "distinct (map fst kvs)"
    and k: "(k1, child) \<in> set kvs \<or> ((k2, child) \<in> set kvs \<and> k1 \<notin> fst ` set kvs)"
    by (auto simp add: section_at_def keyed_def keys_of_def)
  from k show ?thesis
  proof
    assume "(k1, child) \<in> set kvs"
    with d have "map_of kvs k1 = Some child" by simp
    with Obj assms(2) show ?thesis by (simp add: probe_def or_else_def truthy_val_def)
  next
    assume h: "(k2, child) \<in> set kvs \<and> k1 \<notin> fst ` set kvs"
    with d have 2: "map_of kvs k2 = Some child" by simp
    from h have 1: "map_of kvs k1 = None" by (simp add: map_of_eq_None_iff)
    from Obj assms(2) 1 2 show ?thesis by (simp add: probe_def or_else_def truthy_val_def)
  qed
qed

lemma probe_keyed:
  assumes "truthy_val (probe node k1 k2) = Some child"
  shows "keyed node k1 child \<or> keyed node k2 child"
proof (cases node)
  case (Str s)
  with assms show ?thesis by (simp add: probe_def or_else_def truthy_val_def)
next
  case (Obj kvs)
  with assms have "map_of kvs k1 = Some child \<or> map_of kvs k2 = Some child"
    by (auto simp add: probe_def or_else_def truthy_val_def split: if_splits)
  then show ?thesis using Obj by (auto simp add: keyed_def dest: map_of_SomeD)
qed

lemma find_apps_sections:
  assumes "section_at c ''UserLocalConfigStore'' ''userlocalconfigstore'' us"
    and "section_at us ''Software'' ''software'' sw"
    and "section_at sw ''Valve'' ''valve'' va"
    and "section_at va ''Steam'' ''steam'' st"
    and "section_at st ''Apps'' ''apps'' apps"
    and "truthy (Some apps)"
  shows "find_apps c = Some apps"
proof -
  have obj: "truthy (Some n)" if "section_at n a b m" for n a b m
    using that by (cases n) (simp_all add: section_at_def keyed_def)
  show ?thesis
    by (simp add: find_apps_def
        probe_section [OF assms(1) obj [OF assms(2)]] probe_section [OF assms(2) obj [OF assms(3)]]
        probe_section [OF assms(3) obj [OF assms(4)]] probe_section [OF assms(4) obj [OF assms(5)]]
        probe_section [OF assms(5) assms(6)])
qed

lemma find_apps_keyed:
  assumes "find_apps c = Some apps"
  shows "\<exists>us sw va st.
           (keyed c ''UserLocalConfigStore'' us \<or> keyed c ''userlocalconfigstore'' us) \<and>
           (keyed us ''Software'' sw \<or> keyed us ''software'' sw) \<and>
           (keyed sw ''Valve'' va \<or> keyed sw ''valve'' va) \<and>
           (keyed va ''Steam'' st \<or> keyed va ''steam'' st) \<and>
           (keyed st ''Apps'' apps \<or> keyed st ''apps'' apps)"
proof -
  from assms obtain us sw va st where
    1: "truthy_val (probe c ''UserLocalConfigStore'' ''userlocalconfigstore'') = Some us" and
    2: "truthy_val (probe us ''Software'' ''software'') = Some sw" and
    3: "truthy_val (probe sw ''Valve'' ''valve'') = Some va" and
    4: "truthy_val (probe va ''Steam'' ''steam'') = Some st" and
    5: "truthy_val (probe st ''Apps'' ''apps'') = Some apps"
    by (auto simp add: find_apps_def split: option.splits)
  show ?thesis
    using probe_keyed [OF 1] probe_keyed [OF 2] probe_keyed [OF 3] probe_keyed [OF 4]
      probe_keyed [OF 5]
    by blast
qed

text \<open>
  C4, as the code has it. A property read on a parsed tree matches the key exactly: it
  returns a value only of a property literally named by the key, and it returns the value
  of such a property. \<^verbatim>\<open>readUserPlaytime\<close> reads each of its five sections under two
  casings only, the capitalised one first and then the lower-case one. It reaches the table of applications
  when every section on the path is a property named in the capitalised casing, or named
  in the lower-case casing in a node that has no property of the capitalised name,
  wherever the property stands in its node. And whenever it reaches the table, every
  section on the path is literally named in one of the two casings: a section present
  only under another casing is not found.
\<close>

theorem sections_found_in_two_casings:
  "(vget node k = Some v \<longrightarrow> keyed node k v)
   \<and> (distinct (keys_of node) \<and> keyed node k v \<longrightarrow> vget node k = Some v)
   \<and> (section_at c ''UserLocalConfigStore'' ''userlocalconfigstore'' us \<and>
       section_at us ''Software'' ''software'' sw \<and>
       section_at sw ''Valve'' ''valve'' va \<and>
       section_at va ''Steam'' ''steam'' st \<and>
       section_at st ''Apps'' ''apps'' apps \<and> truthy (Some apps)
         \<longrightarrow> find_apps c = Some apps)
   \<and> (find_apps c = Some apps \<longrightarrow>
        (\<exists>us sw va st.
           (keyed c ''UserLocalConfigStore'' us \<or> keyed c ''userlocalconfigstore'' us) \<and>
           (keyed us ''Software'' sw \<or> keyed us ''software'' sw) \<and>
           (keyed sw ''Valve'' va \<or> keyed sw ''valve'' va) \<and>
           (keyed va ''Steam'' st \<or> keyed va ''steam'' st) \<and>
           (keyed st ''Apps'' apps \<or> keyed st ''apps'' apps)))"
proof -
  have 1: "vget node k = Some v \<longrightarrow> keyed node k v"
    by (cases node) (auto simp add: keyed_def dest: map_of_SomeD)
  have 2: "distinct (keys_of node) \<and> keyed node k v \<longrightarrow> vget node k = Some v"
    by (cases node) (auto simp add: keyed_def keys_of_def)
  show ?thesis using 1 2 find_apps_sections find_apps_keyed by blast
qed

text \<open>
  A configuration whose sections stand after other properties, in mixed casings: the
  table is reached, and it holds 30 minutes for title 400. With a string named
  \<^verbatim>\<open>Apps\<close> beside the section \<^verbatim>\<open>apps\<close>, the read of \<^verbatim>\<open>Apps\<close> wins and the
  table is not reached.
\<close>

theorem sections_found_in_two_casings_witness:
  "find_apps (localconfig (steam_node [])) = Some apps_table
   \<and> section_at (steam_node []) ''Apps'' ''apps'' apps_table
   \<and> keyed (steam_node []) ''apps'' apps_table
   \<and> fold playtime_entry (enumerate_props apps_table) [] = [(''400'', Num 30)]
   \<and> find_apps (localconfig (steam_node [(''Apps'', Str ''x'')])) = Some (Str ''x'')"
proof -
  let ?va = "Obj [(''SteamVR'', Str ''1''), (''Steam'', steam_node [])]"
  let ?sw = "Obj [(''valve'', ?va)]"
  let ?us = "Obj [(''Broadcast'', Obj []), (''Software'', ?sw)]"
  have 1: "section_at (localconfig (steam_node [])) ''UserLocalConfigStore'' ''userlocalconfigstore'' ?us"
    by (simp add: section_at_def keyed_def keys_of_def localconfig_def)
  have 2: "section_at ?us ''Software'' ''software'' ?sw"
    by (simp add: section_at_def keyed_def keys_of_def)
  have 3: "section_at ?sw ''Valve'' ''valve'' ?va"
    by (simp add: section_at_def keyed_def keys_of_def)
  have 4: "section_at ?va ''Steam'' ''steam'' (steam_node [])"
    by (simp add: section_at_def keyed_def keys_of_def)
  have 5: "section_at (steam_node []) ''Apps'' ''apps'' apps_table"
    by (simp add: section_at_def keyed_def keys_of_def steam_node_def)
  have t: "truthy (Some apps_table)" by (simp add: apps_table_def)
  have a: "find_apps (localconfig (steam_node [])) = Some apps_table"
    using sections_found_in_two_casings
      [of "steam_node []" "''apps''" apps_table "localconfig (steam_node [])" ?us ?sw ?va
        "steam_node []" apps_table] 1 2 3 4 5 t
    by blast
  have k: "keyed (steam_node []) ''apps'' apps_table"
    by (simp add: keyed_def steam_node_def)
  have b: "fold playtime_entry (enumerate_props apps_table) [] = [(''400'', Num 30)]"
    by (simp add: apps_table_def playtime_entry_def probe_def or_else_def str_simps js_assign_def)
  have c: "find_apps (localconfig (steam_node [(''Apps'', Str ''x'')])) = Some (Str ''x'')"
    by (simp add: find_apps_def localconfig_def steam_node_def probe_def or_else_def
        truthy_val_def)
  show ?thesis using a 5 k b c by simp
qed

text \<open>
  C4 as stated says that a section named \<^verbatim>\<open>Apps\<close>, \<^verbatim>\<open>apps\<close> or \<^verbatim>\<open>APPS\<close> resolves to
  the same value. The first two are found; a section named \<^verbatim>\<open>APPS\<close> is not, and a read
  of \<^verbatim>\<open>APPS\<close> does not find a section named \<^verbatim>\<open>Apps\<close>.
\<close>

theorem section_APPS_is_not_found:
  "find_apps (nest [(''UserLocalConfigStore'', []), (''Software'', []), (''Valve'', []),
                    (''Steam'', []), (''Apps'', [])] apps_table) = Some apps_table
   \<and> find_apps (nest [(''UserLocalConfigStore'', []), (''Software'', []), (''Valve'', []),
                      (''Steam'', []), (''apps'', [])] apps_table) = Some apps_table
   \<and> find_apps (nest [(''UserLocalConfigStore'', []), (''Software'', []), (''Valve'', []),
                      (''Steam'', []), (''APPS'', [])] apps_table) = None
   \<and> vget (Obj [(''Apps'', apps_table)]) ''Apps'' = Some apps_table
   \<and> vget (Obj [(''Apps'', apps_table)]) ''APPS'' = None"
  by (simp add: find_apps_def nest_def probe_def or_else_def truthy_val_def apps_table_def)

subsection \<open>C5: identifiers in the catalog\<close>

text \<open>
  C5 at one input. On Linux the program looks for two roots, \<^verbatim>\<open>~/.steam/steam\<close> and
  \<^verbatim>\<open>~/.local/share/Steam\<close>. \<^verbatim>\<open>getSteamLibraries\<close> collapses equal libraries of one
  root, but nothing compares the libraries or the entries of different roots: when both
  roots are present and hold the manifest of title 400, the catalog has two entries with
  the identifier 400.
\<close>

theorem two_roots_give_the_identifier_twice:
  "map_sum id (map appid) (fetchAllGames two_roots_env) = Inr [Str ''400'', Str ''400'']
   \<and> \<not> distinct [Str ''400'', Str ''400'']"
  by (simp add: catalog_simps env_simps str_simps)

subsection \<open>C6: the playtime of a catalog entry\<close>

text \<open>
  C6 at two inputs. A fully installed title whose manifest has the total-playtime field
  \<^verbatim>\<open>-5\<close> enters the catalog with playtime \<open>-5\<close>; with the field \<^verbatim>\<open>unknown\<close> it
  enters with playtime \<^verbatim>\<open>NaN\<close>.
\<close>

theorem negative_total_reaches_the_catalog:
  "fetchAllGames (total_playtime_env ''-5'') =
     Inr [\<lparr>appid = Str ''400'', title = Str ''Portal'',
           installDir = ''/home/u/.steam/steam/steamapps/common/Portal'',
           playtime = Num (- 5), thumbnail = Some JNull,
           raw = Obj [(''appid'', Str ''400''), (''name'', Str ''Portal''),
                      (''StateFlags'', Str ''4''), (''installdir'', Str ''Portal''),
                      (''PlaytimeForever'', Str ''-5'')]\<rparr>]
   \<and> map_sum id (map playtime) (fetchAllGames (total_playtime_env ''unknown'')) = Inr [NaN]"
  by (simp add: catalog_simps env_simps str_simps)

subsection \<open>C7: the resolved libraries are distinct\<close>

lemma set_add_distinct: "distinct acc \<Longrightarrow> distinct (fold set_add xs acc)"
  by (induction xs arbitrary: acc) (auto simp add: set_add_def)

lemma set_fold_set_add: "set (fold set_add xs acc) = set acc \<union> set xs"
  by (induction xs arbitrary: acc) (auto simp add: set_add_def)

lemma distinct_from_set: "distinct (from_set xs)"
  by (simp add: from_set_def set_add_distinct)

lemma set_from_set: "set (from_set xs) = set xs"
  by (simp add: from_set_def set_fold_set_add)

lemma count_list_distinct: "distinct xs \<Longrightarrow> x \<in> set xs \<Longrightarrow> count_list xs x = 1"
  by (induction xs) auto

lemma folder_libraries_paths:
  "concat (map (folder_libraries E) entries) =
     map (\<lambda>p. path_join E [replace_backslashes p, ''steamapps''])
       (filter (\<lambda>p. existsSync E (replace_backslashes p))
          (concat (map (\<lambda>(key, folder).
                          if isNaN key then []
                          else (case or_default (vget folder ''path'') folder of
                                  Str libPath \<Rightarrow> [libPath]
                                | Obj kvs \<Rightarrow> []))
                     entries)))"
  by (induction entries) (auto simp add: folder_libraries_def Let_def split: vdf.split)

lemma getSteamLibraries_paths:
  assumes "existsSync E (path_join E [basePath, ''steamapps'', ''libraryfolders.vdf''])"
    and "truthy_val (parseVDF E (path_join E [basePath, ''steamapps'', ''libraryfolders.vdf'']))
           = Some parsed"
  shows "getSteamLibraries E basePath =
           from_set (path_join E [basePath, ''steamapps''] #
             map (\<lambda>p. path_join E [replace_backslashes p, ''steamapps''])
               (filter (\<lambda>p. existsSync E (replace_backslashes p))
                  (declared_paths (folders_of parsed))))"
  using assms
  by (simp add: getSteamLibraries_def Let_def folder_libraries_paths declared_paths_def
      folders_of_def)

text \<open>
  C7. The list that \<^verbatim>\<open>getSteamLibraries\<close> returns has no duplicate, and the root's own
  manifest directory occurs in it exactly once. When the descriptor is absent or does not
  parse, the list is that directory alone. When the descriptor is present, the list
  is the root's own directory followed by the declared folders that exist, each under its
  normalized path (pairs of backslashes replaced by a slash, then joined with
  \<^verbatim>\<open>steamapps\<close> by \<^verbatim>\<open>path.join\<close>), with later occurrences of an equal path dropped:
  a declared folder whose normalized path is that of the root's own directory, under
  whatever spelling it is declared, adds no second entry.
\<close>

theorem getSteamLibraries_distinct:
  "distinct (getSteamLibraries E basePath)
   \<and> count_list (getSteamLibraries E basePath) (path_join E [basePath, ''steamapps'']) = 1
   \<and> (existsSync E (path_join E [basePath, ''steamapps'', ''libraryfolders.vdf'']) \<and>
       truthy_val (parseVDF E (path_join E [basePath, ''steamapps'', ''libraryfolders.vdf'']))
         = Some parsed
       \<longrightarrow>
       getSteamLibraries E basePath =
         from_set (path_join E [basePath, ''steamapps''] #
           map (\<lambda>p. path_join E [replace_backslashes p, ''steamapps''])
             (filter (\<lambda>p. existsSync E (replace_backslashes p))
                (declared_paths (folders_of parsed))))
       \<and> set (getSteamLibraries E basePath) =
           insert (path_join E [basePath, ''steamapps''])
             ((\<lambda>p. path_join E [replace_backslashes p, ''steamapps'']) `
                {p \<in> set (declared_paths (folders_of parsed)). existsSync E (replace_backslashes p)}))
   \<and> (\<not> existsSync E (path_join E [basePath, ''steamapps'', ''libraryfolders.vdf'']) \<or>
       truthy_val (parseVDF E (path_join E [basePath, ''steamapps'', ''libraryfolders.vdf''])) = None
       \<longrightarrow> getSteamLibraries E basePath = [path_join E [basePath, ''steamapps'']])"
proof -
  have d: "distinct (getSteamLibraries E basePath)"
    by (simp add: getSteamLibraries_def Let_def distinct_from_set split: option.split)
  have m: "path_join E [basePath, ''steamapps''] \<in> set (getSteamLibraries E basePath)"
    by (simp add: getSteamLibraries_def Let_def set_from_set split: option.split)
  have c: "count_list (getSteamLibraries E basePath) (path_join E [basePath, ''steamapps'']) = 1"
    using d m by (rule count_list_distinct)
  have n: "\<not> existsSync E (path_join E [basePath, ''steamapps'', ''libraryfolders.vdf'']) \<or>
       truthy_val (parseVDF E (path_join E [basePath, ''steamapps'', ''libraryfolders.vdf''])) = None
       \<longrightarrow> getSteamLibraries E basePath = [path_join E [basePath, ''steamapps'']]"
    by (auto simp add: getSteamLibraries_def Let_def)
  show ?thesis using d c n getSteamLibraries_paths [of E basePath parsed]
    by (auto simp add: set_from_set)
qed

text \<open>
  On the Windows root, the descriptor declares \<^verbatim>\<open>C:\\Steam\<close> and \<^verbatim>\<open>D:\\Games\<close>
  with doubled backslashes: the root's own directory is listed once, followed by the
  second library. On the Linux root whose descriptor declares the root itself and a second
  disk, likewise.
\<close>

theorem getSteamLibraries_distinct_witness:
  "getSteamLibraries windows_env (''C:'' @ bs @ ''Steam'') =
     [''C:'' @ bs @ ''Steam'' @ bs @ ''steamapps'', ''D:'' @ bs @ ''Games'' @ bs @ ''steamapps'']
   \<and> declared_paths (Obj [(''0'', Obj [(''path'', Str (''C:'' @ bs @ bs @ ''Steam''))]),
                          (''1'', Obj [(''path'', Str (''D:'' @ bs @ bs @ ''Games''))])])
       = [''C:'' @ bs @ bs @ ''Steam'', ''D:'' @ bs @ bs @ ''Games'']
   \<and> replace_backslashes (''C:'' @ bs @ bs @ ''Steam'') = ''C:/Steam''
   \<and> getSteamLibraries declared_primary_env ''/home/u/.steam/steam'' =
       [''/home/u/.steam/steam/steamapps'', ''/mnt/games/steamapps'']
   \<and> count_list (getSteamLibraries declared_primary_env ''/home/u/.steam/steam'')
        ''/home/u/.steam/steam/steamapps'' = 1"
proof -
  let ?v = "''C:'' @ bs @ ''Steam'' @ bs @ ''steamapps'' @ bs @ ''libraryfolders.vdf''"
  let ?parsed = "Obj [(''libraryfolders'',
                       Obj [(''0'', Obj [(''path'', Str (''C:'' @ bs @ bs @ ''Steam''))]),
                            (''1'', Obj [(''path'', Str (''D:'' @ bs @ bs @ ''Games''))])])]"
  have j: "path_join windows_env [''C:'' @ bs @ ''Steam'', ''steamapps'', ''libraryfolders.vdf''] = ?v"
    by (simp add: windows_env_def bare_env_def win_join_def bs_def)
  have e: "existsSync windows_env ?v"
    by (simp add: windows_env_def bare_env_def bs_def)
  have q: "truthy_val (parseVDF windows_env ?v) = Some ?parsed"
    by (simp add: windows_env_def bare_env_def bs_def parseVDF_def truthy_val_def)
  have dp: "declared_paths (Obj [(''0'', Obj [(''path'', Str (''C:'' @ bs @ bs @ ''Steam''))]),
                          (''1'', Obj [(''path'', Str (''D:'' @ bs @ bs @ ''Games''))])])
       = [''C:'' @ bs @ bs @ ''Steam'', ''D:'' @ bs @ bs @ ''Games'']"
    by (simp add: declared_paths_def isNaN_simps)
  have r: "replace_backslashes (''C:'' @ bs @ bs @ ''Steam'') = ''C:/Steam''"
    by (simp add: bs_def)
  have r2: "replace_backslashes (''D:'' @ bs @ bs @ ''Games'') = ''D:/Games''"
    by (simp add: bs_def)
  have fo: "folders_of ?parsed =
              Obj [(''0'', Obj [(''path'', Str (''C:'' @ bs @ bs @ ''Steam''))]),
                   (''1'', Obj [(''path'', Str (''D:'' @ bs @ bs @ ''Games''))])]"
    by (simp add: folders_of_def or_else_def)
  have eq: "getSteamLibraries windows_env (''C:'' @ bs @ ''Steam'') =
         from_set (path_join windows_env [''C:'' @ bs @ ''Steam'', ''steamapps''] #
           map (\<lambda>p. path_join windows_env [replace_backslashes p, ''steamapps''])
             (filter (\<lambda>p. existsSync windows_env (replace_backslashes p))
                (declared_paths (folders_of ?parsed))))"
    using getSteamLibraries_distinct [of windows_env "''C:'' @ bs @ ''Steam''" ?parsed]
      e [folded j] q [folded j]
    by blast
  have w: "getSteamLibraries windows_env (''C:'' @ bs @ ''Steam'') =
     [''C:'' @ bs @ ''Steam'' @ bs @ ''steamapps'', ''D:'' @ bs @ ''Games'' @ bs @ ''steamapps'']"
    unfolding eq fo dp
    by (simp add: r r2 windows_env_def bare_env_def win_join_def bs_def from_set_def set_add_def)
  have a: "getSteamLibraries declared_primary_env ''/home/u/.steam/steam'' =
     [''/home/u/.steam/steam/steamapps'', ''/mnt/games/steamapps'']"
    by (simp add: getSteamLibraries_def parseVDF_def truthy_val_def or_else_def
        folder_libraries_def from_set_def set_add_def env_simps isNaN_simps)
  show ?thesis using w dp r a by simp
qed

subsection \<open>C8: the user enumerator\<close>

lemma digit_not_ws: "is_digit c \<Longrightarrow> \<not> is_ws c"
  by (auto simp add: is_digit_def is_ws_def)

lemma digit_not_sign: "is_digit c \<Longrightarrow> c \<noteq> CHR ''+'' \<and> c \<noteq> CHR ''-''"
  by (auto simp add: is_digit_def)

lemma js_trim_digits:
  assumes "digits1 is_digit s"
  shows "js_trim s = s"
proof -
  from assms obtain c cs where s: "s = c # cs" and c: "is_digit c"
    by (cases s) (auto simp add: digits1_def)
  from assms have ne: "s \<noteq> []" and all: "list_all is_digit s" by (auto simp add: digits1_def)
  have 1: "dropWhile is_ws s = s" using s c by (simp add: digit_not_ws)
  have "is_digit (last s)" using ne all by (simp add: list_all_iff)
  then have "\<not> is_ws (hd (rev s))" using ne by (simp add: hd_rev digit_not_ws)
  then have 2: "dropWhile is_ws (rev s) = rev s" using ne by (cases "rev s") auto
  show ?thesis by (simp add: js_trim_def 1 2)
qed

lemma digits_not_NaN:
  assumes "digits1 is_digit s"
  shows "\<not> isNaN s"
proof -
  from assms have ne: "s \<noteq> []" and all: "list_all is_digit s" by (auto simp add: digits1_def)
  have hd: "is_digit (hd s)" using ne all by (cases s) auto
  have ss: "strip_sign s = s" using hd digit_not_sign [of "hd s"] by (simp add: strip_sign_def)
  have tw: "takeWhile is_digit s = s" using all by (simp add: list_all_iff)
  have dw: "dropWhile is_digit s = []" using all by (simp add: list_all_iff)
  have "unsigned_decimal s" using ne by (simp add: unsigned_decimal_def tw dw)
  then show ?thesis by (simp add: isNaN_def js_trim_digits [OF assms] ss ne)
qed

lemma keep_users_filter:
  assumes "\<forall>f \<in> set fs. isDirectory E (path_join E [d, f]) \<noteq> None"
  shows "keep_users E d fs =
           Some (filter (\<lambda>f. isDirectory E (path_join E [d, f]) = Some True \<and> \<not> isNaN f) fs)"
  using assms by (induction fs) auto

text \<open>
  C8, as the code has it. When the user-profile directory exists and its listing and
  every \<^verbatim>\<open>statSync\<close> succeed, \<^verbatim>\<open>getSteamUsers\<close> returns, in listing order, exactly the
  entries that are directories and whose name \<^verbatim>\<open>isNaN\<close> does not reject, that is, whose
  name converts to a number. Every directory whose name is one or more digits is
  returned; so is a directory named \<^verbatim>\<open>1e3\<close>.
\<close>

theorem getSteamUsers_keeps_directories_that_convert_to_a_number:
  assumes "existsSync E (path_join E [basePath, ''userdata''])"
    and "readdirSync E (path_join E [basePath, ''userdata'']) = Some fs"
    and "\<forall>f \<in> set fs. isDirectory E (path_join E [path_join E [basePath, ''userdata''], f]) \<noteq> None"
  shows "getSteamUsers E basePath =
           filter (\<lambda>f. isDirectory E (path_join E [path_join E [basePath, ''userdata''], f]) = Some True
                       \<and> \<not> isNaN f) fs
         \<and> (\<forall>f \<in> set fs.
              isDirectory E (path_join E [path_join E [basePath, ''userdata''], f]) = Some True
              \<and> digits1 is_digit f \<longrightarrow> f \<in> set (getSteamUsers E basePath))"
proof -
  have eq: "getSteamUsers E basePath =
           filter (\<lambda>f. isDirectory E (path_join E [path_join E [basePath, ''userdata''], f]) = Some True
                       \<and> \<not> isNaN f) fs"
    using assms(1,2) keep_users_filter [OF assms(3)] by (simp add: getSteamUsers_def)
  show ?thesis unfolding eq using digits_not_NaN by auto
qed

theorem getSteamUsers_keeps_directories_that_convert_to_a_number_witness:
  "getSteamUsers users_env ''/home/u/.steam/steam'' = [''1001'', ''1e3'']
   \<and> existsSync users_env (path_join users_env [''/home/u/.steam/steam'', ''userdata''])
   \<and> readdirSync users_env (path_join users_env [''/home/u/.steam/steam'', ''userdata''])
        = Some [''1001'', ''1e3'', ''ac'', ''20.txt'']"
proof -
  have a: "existsSync users_env (path_join users_env [''/home/u/.steam/steam'', ''userdata''])"
    by (simp add: users_env_def bare_env_def posix_join_def)
  have b: "readdirSync users_env (path_join users_env [''/home/u/.steam/steam'', ''userdata''])
        = Some [''1001'', ''1e3'', ''ac'', ''20.txt'']"
    by (simp add: users_env_def bare_env_def posix_join_def)
  have c: "\<forall>f \<in> set [''1001'', ''1e3'', ''ac'', ''20.txt''].
      isDirectory users_env
        (path_join users_env [path_join users_env [''/home/u/.steam/steam'', ''userdata''], f]) \<noteq> None"
    by (simp add: users_env_def bare_env_def)
  have "getSteamUsers users_env ''/home/u/.steam/steam'' = [''1001'', ''1e3'']"
    using getSteamUsers_keeps_directories_that_convert_to_a_number [OF a b c]
    by (simp add: users_env_def bare_env_def posix_join_def isNaN_simps)
  then show ?thesis using a b by simp
qed

text \<open>
  C8 as stated says that every returned name consists only of digits. The directory
  \<^verbatim>\<open>1e3\<close> is returned, and its name has a letter.
\<close>

theorem getSteamUsers_returns_1e3:
  "''1e3'' \<in> set (getSteamUsers users_env ''/home/u/.steam/steam'')
   \<and> \<not> list_all is_digit ''1e3''"
  by (simp add: getSteamUsers_def users_env_def bare_env_def posix_join_def isNaN_simps)

subsection \<open>C9: no installation root\<close>

text \<open>
  C9. When \<^verbatim>\<open>getSteamPaths\<close> finds no installation root, \<^verbatim>\<open>fetchAllGames\<close> returns
  the empty list and throws nothing.
\<close>

theorem no_root_gives_empty_catalog:
  "getSteamPaths E = [] \<Longrightarrow> fetchAllGames E = Inr []"
  by (simp add: fetchAllGames_def)

text \<open>
  On Linux with neither candidate directory present, and on a platform for which the
  program has no candidate.
\<close>

theorem no_root_gives_empty_catalog_witness:
  "getSteamPaths bare_env = [] \<and> fetchAllGames bare_env = Inr []
   \<and> getSteamPaths (bare_env\<lparr>platform := ''freebsd'', existsSync := (\<lambda>p. True)\<rparr>) = []
   \<and> fetchAllGames (bare_env\<lparr>platform := ''freebsd'', existsSync := (\<lambda>p. True)\<rparr>) = Inr []"
proof -
  have h: "getSteamPaths bare_env = []"
    by (simp add: getSteamPaths_def bare_env_def)
  have k: "getSteamPaths (bare_env\<lparr>platform := ''freebsd'', existsSync := (\<lambda>p. True)\<rparr>) = []"
    by (simp add: getSteamPaths_def candidate_paths_def bare_env_def)
  show ?thesis
    using h k no_root_gives_empty_catalog [OF h] no_root_gives_empty_catalog [OF k] by simp
qed

subsection \<open>C10: a failed thumbnail lookup\<close>

lemma fetchThumbnail_elsewhere:
  "thumbnail_url aid \<noteq> u \<Longrightarrow> fetchThumbnail (with_answer E u r) aid = fetchThumbnail E aid"
  by (simp add: fetchThumbnail_def fetchThumbnail_try_def with_answer_def)

lemma parseVDF_axios: "parseVDF (E\<lparr>axios_get := h\<rparr>) = parseVDF E"
  by (rule ext) (simp add: parseVDF_def cong: option.case_cong)

lemma folder_libraries_axios: "folder_libraries (E\<lparr>axios_get := h\<rparr>) = folder_libraries E"
  by (simp add: folder_libraries_def Let_def cong: vdf.case_cong if_cong)

lemma keep_users_axios: "keep_users (E\<lparr>axios_get := h\<rparr>) d fs = keep_users E d fs"
  by (induction fs) (simp_all split: option.split)

lemma readUserPlaytime_axios: "readUserPlaytime (E\<lparr>axios_get := h\<rparr>) = readUserPlaytime E"
  by (rule ext)
    (simp add: readUserPlaytime_def parseVDF_axios Let_def cong: if_cong option.case_cong)

lemma local_reads_axios:
  "getSteamPaths (with_answer E u r) = getSteamPaths E"
  "getSteamLibraries (with_answer E u r) b = getSteamLibraries E b"
  "getSteamUsers (with_answer E u r) b = getSteamUsers E b"
  "read_users (with_answer E u r) b us = read_users E b us"
  "parseVDF (with_answer E u r) = parseVDF E"
  "path_join (with_answer E u r) = path_join E"
  "date_now (with_answer E u r) = date_now E"
  "existsSync (with_answer E u r) = existsSync E"
  "readdirSync (with_answer E u r) = readdirSync E"
  by (simp_all add: with_answer_def getSteamPaths_def candidate_paths_def env_or_def
      getSteamLibraries_def parseVDF_axios folder_libraries_axios getSteamUsers_def
      keep_users_axios read_users_def readUserPlaytime_axios Let_def
      cong: if_cong option.case_cong)

lemma process_manifest_update:
  "process_manifest (with_answer E u r) ups lib m =
     map_sum id (map (look_again (with_answer E u r) u)) (process_manifest E ups lib m)"
  by (simp add: process_manifest_def local_reads_axios fetchThumbnail_elsewhere look_again_def
      Let_def split: option.split sum.split)

lemma collect_map_sum:
  assumes "\<And>x. f' x = map_sum id (map t) (f x)"
  shows "collect f' xs = map_sum id (map t) (collect f xs)"
  by (induction xs) (auto simp add: assms split: sum.split)

lemma scan_library_update:
  "scan_library (with_answer E u r) ups lib =
     map_sum id (map (look_again (with_answer E u r) u)) (scan_library E ups lib)"
  by (simp add: scan_library_def local_reads_axios collect_map_sum [OF process_manifest_update]
      split: option.split)

lemma scan_base_update:
  "scan_base (with_answer E u r) base =
     map_sum id (map (look_again (with_answer E u r) u)) (scan_base E base)"
  by (simp add: scan_base_def local_reads_axios collect_map_sum [OF scan_library_update])

lemma fetchAllGames_update:
  "fetchAllGames (with_answer E u r) =
     map_sum id (map (look_again (with_answer E u r) u)) (fetchAllGames E)"
  by (simp add: fetchAllGames_def Let_def local_reads_axios collect_map_sum [OF scan_base_update])

lemma fetchThumbnail_failed_request:
  "axios_get E (thumbnail_url aid) = None \<Longrightarrow> fetchThumbnail E aid = Some JNull"
  by (simp add: fetchThumbnail_def fetchThumbnail_try_def)

lemma fetchThumbnail_other_shape:
  "axios_get E (thumbnail_url aid) = Some p \<Longrightarrow> \<not> expected_shape p (toString (Some aid)) \<Longrightarrow>
     fetchThumbnail E aid = Some JNull"
  by (auto simp add: fetchThumbnail_def fetchThumbnail_try_def expected_shape_def
      split: sum.splits if_splits)

lemma fetchThumbnail_expected_shape:
  "axios_get E (thumbnail_url aid) = Some p \<Longrightarrow> expected_shape p (toString (Some aid)) \<Longrightarrow>
     fetchThumbnail E aid = header_image_of p (toString (Some aid))"
  by (auto simp add: fetchThumbnail_def fetchThumbnail_try_def expected_shape_def
      header_image_of_def split: sum.splits if_splits)

text \<open>
  C10, as the code has it. Change the answer to the request at one address \<open>u\<close> in an
  otherwise unchanged environment (to a failure, or to any payload). Then the build throws
  exactly when it threw before, and otherwise returns the same entries in the same order,
  except for the thumbnails of the entries whose request goes to \<open>u\<close>: no entry is
  dropped and no other entry changes. \<^verbatim>\<open>fetchThumbnail\<close> returns \<^verbatim>\<open>null\<close> when the
  request fails (\<^verbatim>\<open>axios.get\<close> rejects: a timeout, a network failure, a status outside
  2xx), and when the payload lacks, under the identifier, a truthy entry with a truthy
  \<^verbatim>\<open>success\<close> and a \<^verbatim>\<open>data\<close> member. A payload that has these members is not checked
  further: its \<^verbatim>\<open>header_image\<close> is returned as it is.
\<close>

theorem thumbnail_failure_is_local:
  "fetchAllGames (with_answer E u r) =
     map_sum id (map (look_again (with_answer E u r) u)) (fetchAllGames E)
   \<and> (axios_get E (thumbnail_url aid) = None \<longrightarrow> fetchThumbnail E aid = Some JNull)
   \<and> (axios_get E (thumbnail_url aid) = Some p \<and> \<not> expected_shape p (toString (Some aid))
        \<longrightarrow> fetchThumbnail E aid = Some JNull)
   \<and> (axios_get E (thumbnail_url aid) = Some p \<and> expected_shape p (toString (Some aid))
        \<longrightarrow> fetchThumbnail E aid = header_image_of p (toString (Some aid)))"
  using fetchAllGames_update fetchThumbnail_failed_request fetchThumbnail_other_shape
    fetchThumbnail_expected_shape
  by blast

text \<open>
  The store answers for the titles 400 and 70. When the request for 400 times out, or is
  answered with \<^verbatim>\<open>success\<close> false, title 400 stays in the catalog with the thumbnail
  \<^verbatim>\<open>null\<close>, and title 70 keeps its thumbnail.
\<close>

theorem thumbnail_failure_is_local_witness:
  "map_sum id (map (\<lambda>g. (appid g, thumbnail g))) (fetchAllGames store_env) =
     Inr [(Str ''400'', Some (JStr ''https://cdn.example/400/header.jpg'')),
          (Str ''70'', Some (JStr ''https://cdn.example/70/header.jpg''))]
   \<and> map_sum id (map (\<lambda>g. (appid g, thumbnail g)))
        (fetchAllGames
           (with_answer store_env ''https://store.steampowered.com/api/appdetails?appids=400'' None)) =
     Inr [(Str ''400'', Some JNull),
          (Str ''70'', Some (JStr ''https://cdn.example/70/header.jpg''))]
   \<and> map_sum id (map (\<lambda>g. (appid g, thumbnail g)))
        (fetchAllGames
           (with_answer store_env ''https://store.steampowered.com/api/appdetails?appids=400''
              (Some (JObj [(''400'', JObj [(''success'', JBool False)])])))) =
     Inr [(Str ''400'', Some JNull),
          (Str ''70'', Some (JStr ''https://cdn.example/70/header.jpg''))]
   \<and> expected_shape (payload ''70'' ''https://cdn.example/70/header.jpg'') ''70''
   \<and> \<not> expected_shape (JObj [(''400'', JObj [(''success'', JBool False)])]) ''400''"
proof -
  let ?u = "''https://store.steampowered.com/api/appdetails?appids=400''"
  let ?bad = "JObj [(''400'', JObj [(''success'', JBool False)])]"
  have a: "map_sum id (map (\<lambda>g. (appid g, thumbnail g))) (fetchAllGames store_env) =
     Inr [(Str ''400'', Some (JStr ''https://cdn.example/400/header.jpg'')),
          (Str ''70'', Some (JStr ''https://cdn.example/70/header.jpg''))]"
    by (simp add: catalog_simps env_simps str_simps)
  have s70: "expected_shape (payload ''70'' ''https://cdn.example/70/header.jpg'') ''70''"
    by (simp add: expected_shape_def payload_def)
  have sbad: "\<not> expected_shape ?bad ''400''"
    by (simp add: expected_shape_def)
  have u: "thumbnail_url (Str ''400'') = ?u"
    by (simp add: thumbnail_url_def)
  have t1: "fetchThumbnail (with_answer store_env ?u None) (Str ''400'') = Some JNull"
    using thumbnail_failure_is_local
      [of "with_answer store_env ?u None" ?u None "Str ''400''" ?bad]
    by (simp add: with_answer_def u)
  have t2: "fetchThumbnail (with_answer store_env ?u (Some ?bad)) (Str ''400'') = Some JNull"
    using thumbnail_failure_is_local
      [of "with_answer store_env ?u (Some ?bad)" ?u None "Str ''400''" ?bad] sbad
    by (simp add: with_answer_def u)
  have b: "fetchAllGames (with_answer store_env ?u r) =
           map_sum id (map (look_again (with_answer store_env ?u r) ?u)) (fetchAllGames store_env)"
    for r
    using thumbnail_failure_is_local [of store_env ?u r "Str ''70''" ?bad] by blast
  obtain games where f: "fetchAllGames store_env = Inr games"
    using a by (cases "fetchAllGames store_env") auto
  have "map (\<lambda>g. (appid g, thumbnail g)) games =
     [(Str ''400'', Some (JStr ''https://cdn.example/400/header.jpg'')),
      (Str ''70'', Some (JStr ''https://cdn.example/70/header.jpg''))]"
    using a f by simp
  then obtain g1 g2 where gs: "games = [g1, g2]" and g1: "appid g1 = Str ''400''"
    and g2: "appid g2 = Str ''70''"
    and t: "thumbnail g2 = Some (JStr ''https://cdn.example/70/header.jpg'')"
    by auto
  have l: "map (\<lambda>g. (appid g, thumbnail g)) (map (look_again E' ?u) games) =
     [(Str ''400'', Some JNull),
      (Str ''70'', Some (JStr ''https://cdn.example/70/header.jpg''))]"
    if "fetchThumbnail E' (Str ''400'') = Some JNull" for E'
    unfolding gs using that by (simp add: look_again_def thumbnail_url_def g1 g2 t)
  show ?thesis
    using a s70 sbad f b [of None] b [of "Some ?bad"] l [OF t1] l [OF t2]
    by (simp add: sum.map_comp comp_def)
qed

text \<open>
  C10 as stated says that a malformed payload leaves the thumbnail unset. When the store
  answers for title 400 with a payload of the expected members whose \<^verbatim>\<open>header_image\<close>
  is the number 7, the entry of title 400 gets the thumbnail 7.
\<close>

theorem unchecked_header_image_is_attached:
  "map_sum id (map (\<lambda>g. (appid g, thumbnail g)))
     (fetchAllGames
        (with_answer store_env ''https://store.steampowered.com/api/appdetails?appids=400''
           (Some (JObj [(''400'', JObj [(''success'', JBool True),
                                        (''data'', JObj [(''header_image'', JNum 7)])])])))) =
     Inr [(Str ''400'', Some (JNum 7)),
          (Str ''70'', Some (JStr ''https://cdn.example/70/header.jpg''))]"
  by (simp add: catalog_simps env_simps str_simps with_answer_def)

end
